theory Spec2Isabelle
  imports Main "HOL-Library.Word" "HOL-Library.Multiset"
begin

section \<open>Data model\<close>

text \<open>
  A Python \<open>str\<close> is a sequence of Unicode code points, \<open>bytes\<close> a sequence of
  octets.  Timestamps are whole seconds.
\<close>

type_synonym str = "nat list"
type_synonym bytes = "8 word list"
type_synonym datetime = int

definition ascii :: "string \<Rightarrow> str" where
  "ascii s = map of_char s"

text \<open>
  Everything a handler can raise.  \<open>HTTPException\<close> carries status code and detail;
  \<open>RequestValidationError\<close> is what the framework answers (422) when a payload does not
  satisfy its schema in \<open>schemes.py\<close>; the others are exceptions of the libraries the
  handlers call.
\<close>

datatype error =
    HTTPException int string
  | RequestValidationError
  | MultipleResultsFound
  | UnicodeEncodeError
  | UnicodeDecodeError
  | ValueError
  | IntegrityError
  | OverflowError
  | OperationalError
  | JWTError string

text \<open>\<open>models.py\<close>: the rows of the two tables.\<close>

record Book =
  book_id :: int
  title :: str
  author :: str
  year :: "int option"
  description :: "str option"
  created_at :: datetime
  owner_id :: int

record User =
  user_id :: int
  username :: str
  hashed_password :: str
  email :: "str option"
  full_name :: "str option"
  user_created_at :: datetime

text \<open>\<open>schemes.py\<close>: the request payloads.\<close>

record UserRegister =
  reg_username :: str
  reg_password :: str
  reg_email :: "str option"
  reg_full_name :: "str option"

record UserUpdate =
  upd_email :: "str option"
  upd_full_name :: "str option"
  upd_password :: "str option"

record BookCreate =
  bc_title :: str
  bc_author :: str
  bc_year :: "int option"
  bc_description :: "str option"

text \<open>The database a session works on: the rows of \<open>users\<close> and \<open>books\<close>.\<close>

record database =
  users :: "User list"
  books :: "Book list"

text \<open>
  The constraints the storage engine enforces: both primary keys, the unique
  \<open>username\<close> and the nullable unique \<open>email\<close>.
\<close>

definition emails :: "User list \<Rightarrow> str list" where
  "emails us = concat (map (\<lambda>u. case email u of None \<Rightarrow> [] | Some e \<Rightarrow> [e]) us)"

definition db_constraints :: "database \<Rightarrow> bool" where
  "db_constraints db \<longleftrightarrow>
     distinct (map user_id (users db)) \<and>
     distinct (map username (users db)) \<and>
     distinct (emails (users db)) \<and>
     distinct (map book_id (books db))"

section \<open>Queries\<close>

text \<open>
  \<open>Result.scalar_one_or_none\<close>: no row gives \<open>None\<close>, one row gives the row, more
  rows raise.
\<close>

fun scalar_one_or_none :: "'a list \<Rightarrow> error + 'a option" where
  "scalar_one_or_none [] = Inr None"
| "scalar_one_or_none [x] = Inr (Some x)"
| "scalar_one_or_none (x # y # rest) = Inl MultipleResultsFound"

text \<open>
  An integer of the request that is bound to a statement must fit the 64-bit integer of
  SQLite; the driver raises \<open>OverflowError\<close> otherwise.
\<close>

definition sqlite_integer :: "int \<Rightarrow> bool" where
  "sqlite_integer n \<longleftrightarrow> - (2 ^ 63) \<le> n \<and> n < 2 ^ 63"

text \<open>
  The integer primary key of a new row: 1 in an empty table, otherwise one more than the
  largest key; when the largest key is the largest 64-bit integer the engine tries keys
  at random, and the insert fails when it finds none that is free.  \<open>candidate\<close> is
  the key the engine has drawn, if it has found one.
\<close>

definition next_id :: "int option \<Rightarrow> int list \<Rightarrow> error + int" where
  "next_id candidate ids =
     (if ids = [] then Inr 1
      else if Max (set ids) < 2 ^ 63 - 1 then Inr (Max (set ids) + 1)
      else (case candidate of
              None \<Rightarrow> Inl OperationalError
            | Some r \<Rightarrow> if 0 < r \<and> r < 2 ^ 63 \<and> r \<notin> set ids then Inr r
                        else Inl OperationalError))"

section \<open>Book endpoints\<close>

text \<open>
  The query shared by the three single-book handlers.  Its \<open>book_id\<close> is the path
  parameter, any integer; the caller's id was read from the table.
\<close>

definition select_book :: "int \<Rightarrow> User \<Rightarrow> database \<Rightarrow> Book list" where
  "select_book bid current_user db =
     filter (\<lambda>b. book_id b = bid \<and> owner_id b = user_id current_user) (books db)"

definition book_not_found :: error where
  "book_not_found = HTTPException 404 ''Book not found''"

definition get_book :: "int \<Rightarrow> User \<Rightarrow> database \<Rightarrow> error + Book" where
  "get_book bid current_user db =
     (if \<not> sqlite_integer bid then Inl OverflowError
      else
        (case scalar_one_or_none (select_book bid current_user db) of
           Inl e \<Rightarrow> Inl e
         | Inr None \<Rightarrow> Inl book_not_found
         | Inr (Some book) \<Rightarrow> Inr book))"

text \<open>
  The attribute assignments of \<open>update_book\<close> are flushed by \<open>commit\<close> as one
  \<open>UPDATE books SET ... WHERE id = ?\<close>; \<open>refresh\<close> reads the row back.
\<close>

definition assign_book :: "BookCreate \<Rightarrow> Book \<Rightarrow> Book" where
  "assign_book book_data book =
     book\<lparr>title := bc_title book_data, author := bc_author book_data,
          year := bc_year book_data, description := bc_description book_data\<rparr>"

definition update_book ::
  "int \<Rightarrow> BookCreate \<Rightarrow> User \<Rightarrow> database \<Rightarrow> (error + Book) \<times> database" where
  "update_book bid book_data current_user db =
     (if \<not> sqlite_integer bid then (Inl OverflowError, db)
      else
        (case scalar_one_or_none (select_book bid current_user db) of
           Inl e \<Rightarrow> (Inl e, db)
         | Inr None \<Rightarrow> (Inl book_not_found, db)
         | Inr (Some book) \<Rightarrow>
             (Inr (assign_book book_data book),
              db\<lparr>books := map (\<lambda>b. if book_id b = book_id book
                                    then assign_book book_data b else b) (books db)\<rparr>)))"

definition delete_book :: "int \<Rightarrow> User \<Rightarrow> database \<Rightarrow> (error + string) \<times> database" where
  "delete_book bid current_user db =
     (if \<not> sqlite_integer bid then (Inl OverflowError, db)
      else
        (case scalar_one_or_none (select_book bid current_user db) of
           Inl e \<Rightarrow> (Inl e, db)
         | Inr None \<Rightarrow> (Inl book_not_found, db)
         | Inr (Some book) \<Rightarrow>
             (Inr ''Book deleted successfully'',
              db\<lparr>books := filter (\<lambda>b. book_id b \<noteq> book_id book) (books db)\<rparr>)))"

section \<open>Text encoding\<close>

text \<open>
  \<open>str.encode('utf-8')\<close>: one to four octets per code point; a surrogate code point
  cannot be encoded and raises \<open>UnicodeEncodeError\<close>.
\<close>

definition encode_char :: "nat \<Rightarrow> bytes option" where
  "encode_char c =
     (if c < 0x80 then Some [of_nat c]
      else if c < 0x800 then Some [of_nat (0xC0 + c div 64), of_nat (0x80 + c mod 64)]
      else if 0xD800 \<le> c \<and> c < 0xE000 then None
      else if c < 0x10000 then
        Some [of_nat (0xE0 + c div 4096), of_nat (0x80 + c div 64 mod 64),
              of_nat (0x80 + c mod 64)]
      else if c < 0x110000 then
        Some [of_nat (0xF0 + c div 262144), of_nat (0x80 + c div 4096 mod 64),
              of_nat (0x80 + c div 64 mod 64), of_nat (0x80 + c mod 64)]
      else None)"

fun encode_utf8 :: "str \<Rightarrow> error + bytes" where
  "encode_utf8 [] = Inr []"
| "encode_utf8 (c # cs) =
     (case encode_char c of
        None \<Rightarrow> Inl UnicodeEncodeError
      | Some bs \<Rightarrow> (case encode_utf8 cs of Inl e \<Rightarrow> Inl e | Inr rest \<Rightarrow> Inr (bs @ rest)))"

text \<open>
  \<open>bytes.decode('utf-8')\<close>: the strict decoder; overlong forms, surrogates, stray
  continuation octets and truncated sequences raise \<open>UnicodeDecodeError\<close>.
\<close>

definition continuation :: "8 word \<Rightarrow> bool" where
  "continuation b \<longleftrightarrow> 0x80 \<le> unat b \<and> unat b < 0xC0"

definition prepend :: "nat \<Rightarrow> error + str \<Rightarrow> error + str" where
  "prepend c r = (case r of Inl e \<Rightarrow> Inl e | Inr cs \<Rightarrow> Inr (c # cs))"

fun decode_utf8 :: "bytes \<Rightarrow> error + str" where
  "decode_utf8 [] = Inr []"
| "decode_utf8 [b] = (if unat b < 0x80 then Inr [unat b] else Inl UnicodeDecodeError)"
| "decode_utf8 [b, b1] =
     (if unat b < 0x80 then prepend (unat b) (decode_utf8 [b1])
      else if 0xC2 \<le> unat b \<and> unat b < 0xE0 \<and> continuation b1
      then Inr [(unat b - 0xC0) * 64 + (unat b1 - 0x80)]
      else Inl UnicodeDecodeError)"
| "decode_utf8 [b, b1, b2] =
     (if unat b < 0x80 then prepend (unat b) (decode_utf8 [b1, b2])
      else if 0xC2 \<le> unat b \<and> unat b < 0xE0 \<and> continuation b1
      then prepend ((unat b - 0xC0) * 64 + (unat b1 - 0x80)) (decode_utf8 [b2])
      else
        (let c = (unat b - 0xE0) * 4096 + (unat b1 - 0x80) * 64 + (unat b2 - 0x80)
         in if 0xE0 \<le> unat b \<and> unat b < 0xF0 \<and> continuation b1 \<and> continuation b2
               \<and> 0x800 \<le> c \<and> \<not> (0xD800 \<le> c \<and> c < 0xE000)
            then Inr [c] else Inl UnicodeDecodeError))"
| "decode_utf8 (b # b1 # b2 # b3 # bs) =
     (if unat b < 0x80 then prepend (unat b) (decode_utf8 (b1 # b2 # b3 # bs))
      else if 0xC2 \<le> unat b \<and> unat b < 0xE0 \<and> continuation b1
      then prepend ((unat b - 0xC0) * 64 + (unat b1 - 0x80)) (decode_utf8 (b2 # b3 # bs))
      else
        (let c = (unat b - 0xE0) * 4096 + (unat b1 - 0x80) * 64 + (unat b2 - 0x80)
         in if 0xE0 \<le> unat b \<and> unat b < 0xF0 \<and> continuation b1 \<and> continuation b2
               \<and> 0x800 \<le> c \<and> \<not> (0xD800 \<le> c \<and> c < 0xE000)
            then prepend c (decode_utf8 (b3 # bs))
            else
              (let d = (unat b - 0xF0) * 262144 + (unat b1 - 0x80) * 4096
                       + (unat b2 - 0x80) * 64 + (unat b3 - 0x80)
               in if 0xF0 \<le> unat b \<and> unat b < 0xF5 \<and> continuation b1 \<and> continuation b2
                     \<and> continuation b3 \<and> 0x10000 \<le> d \<and> d < 0x110000
                  then prepend d (decode_utf8 bs)
                  else Inl UnicodeDecodeError)))"

section \<open>The libraries and the process environment\<close>

text \<open>
  The claim set of a token: a dictionary from claim names to values, kept as an
  association list read with \<open>map_of\<close>.
\<close>

datatype claim_value = ClaimStr str | ClaimTime datetime

type_synonym claims = "(string \<times> claim_value) list"

text \<open>
  What \<open>main.py\<close> takes from outside the repository: the environment variable
  \<open>SECRET_KEY\<close>, the clock (\<open>datetime.utcnow\<close>), \<open>bcrypt\<close> (\<open>gensalt\<close> is the salt
  drawn in this call, \<open>hashpw\<close> and \<open>checkpw\<close> may raise), \<open>jose.jwt\<close> (\<open>decode\<close> reads
  the clock, passed here as its last argument), pydantic's \<open>EmailStr\<close> (\<open>email_str\<close>
  says whether it accepts an address, \<open>email_normalised\<close> is the normalised address it
  hands to the handler) and the key the storage engine draws for a row when the
  largest key is taken (\<open>random_rowid\<close>, from the keys in use).
\<close>

record ext =
  SECRET_KEY :: "str option"
  utcnow :: datetime
  gensalt :: bytes
  hashpw :: "bytes \<Rightarrow> bytes \<Rightarrow> error + bytes"
  checkpw :: "bytes \<Rightarrow> bytes \<Rightarrow> error + bool"
  jwt_encode :: "claims \<Rightarrow> str option \<Rightarrow> string \<Rightarrow> error + str"
  jwt_decode :: "str \<Rightarrow> str option \<Rightarrow> string list \<Rightarrow> datetime \<Rightarrow> error + claims"
  email_str :: "str \<Rightarrow> bool"
  email_normalised :: "str \<Rightarrow> str"
  random_rowid :: "int list \<Rightarrow> int option"

definition ALGORITHM :: string where
  "ALGORITHM = ''HS256''"

definition ACCESS_TOKEN_EXPIRE_MINUTES :: int where
  "ACCESS_TOKEN_EXPIRE_MINUTES = 10"

definition timedelta_minutes :: "int \<Rightarrow> int" where
  "timedelta_minutes m = 60 * m"

section \<open>Credential hasher\<close>

definition hash_password :: "ext \<Rightarrow> str \<Rightarrow> error + str" where
  "hash_password E password =
     (case encode_utf8 password of
        Inl e \<Rightarrow> Inl e
      | Inr password_bytes \<Rightarrow>
          (let password_bytes =
                 (if length password_bytes > 72 then take 72 password_bytes
                  else password_bytes)
           in case hashpw E password_bytes (gensalt E) of
                Inl e \<Rightarrow> Inl e
              | Inr hashed \<Rightarrow> decode_utf8 hashed))"

text \<open>The body of the \<open>try\<close> block of \<open>verify_password\<close>.\<close>

definition verify_password_try :: "ext \<Rightarrow> str \<Rightarrow> str \<Rightarrow> error + bool" where
  "verify_password_try E plain_password hashed_password' =
     (case encode_utf8 plain_password of
        Inl e \<Rightarrow> Inl e
      | Inr password_bytes \<Rightarrow>
          (case encode_utf8 hashed_password' of
             Inl e \<Rightarrow> Inl e
           | Inr hashed_bytes \<Rightarrow>
               (let password_bytes =
                      (if length password_bytes > 72 then take 72 password_bytes
                       else password_bytes)
                in checkpw E password_bytes hashed_bytes)))"

text \<open>\<open>except Exception: return False\<close>.\<close>

definition verify_password :: "ext \<Rightarrow> str \<Rightarrow> str \<Rightarrow> bool" where
  "verify_password E plain_password hashed_password' =
     (case verify_password_try E plain_password hashed_password' of
        Inl e \<Rightarrow> False
      | Inr ok \<Rightarrow> ok)"

section \<open>Token issuer and verifier\<close>

definition create_access_token :: "ext \<Rightarrow> str \<Rightarrow> error + str" where
  "create_access_token E username' =
     jwt_encode E
       [(''sub'', ClaimStr username'),
        (''exp'', ClaimTime (utcnow E + timedelta_minutes ACCESS_TOKEN_EXPIRE_MINUTES))]
       (SECRET_KEY E) ALGORITHM"

text \<open>Only \<open>JWTError\<close> is caught; any other exception of the library propagates.\<close>

definition verify_jwt_token :: "ext \<Rightarrow> str \<Rightarrow> error + claims option" where
  "verify_jwt_token E token =
     (case jwt_decode E token (SECRET_KEY E) [ALGORITHM] (utcnow E) of
        Inr payload \<Rightarrow> Inr (Some payload)
      | Inl (JWTError msg) \<Rightarrow> Inr None
      | Inl e \<Rightarrow> Inl e)"

text \<open>Python truthiness of the values the handlers test.\<close>

definition truthy_claim :: "claim_value \<Rightarrow> bool" where
  "truthy_claim v = (case v of ClaimStr s \<Rightarrow> s \<noteq> [] | ClaimTime t \<Rightarrow> t \<noteq> 0)"

definition truthy_str :: "str option \<Rightarrow> bool" where
  "truthy_str v = (case v of None \<Rightarrow> False | Some s \<Rightarrow> s \<noteq> [])"

definition invalid_token :: error where
  "invalid_token = HTTPException 401 ''Invalid token''"

definition get_current_user :: "ext \<Rightarrow> str \<Rightarrow> database \<Rightarrow> error + User" where
  "get_current_user E token db =
     (case verify_jwt_token E token of
        Inl e \<Rightarrow> Inl e
      | Inr None \<Rightarrow> Inl invalid_token
      | Inr (Some payload) \<Rightarrow>
          if payload = [] then Inl invalid_token
          else
            (case map_of payload ''sub'' of
               None \<Rightarrow> Inl invalid_token
             | Some sub \<Rightarrow>
                 if \<not> truthy_claim sub then Inl invalid_token
                 else
                   (case scalar_one_or_none
                           (filter (\<lambda>u. ClaimStr (username u) = sub) (users db)) of
                      Inl e \<Rightarrow> Inl e
                    | Inr None \<Rightarrow> Inl (HTTPException 404 ''User not found'')
                    | Inr (Some user) \<Rightarrow> Inr user)))"

section \<open>User endpoints\<close>

record TokenResponse =
  access_token :: str
  token_type :: str

definition select_user_by_username :: "str \<Rightarrow> database \<Rightarrow> User list" where
  "select_user_by_username name db = filter (\<lambda>u. username u = name) (users db)"

definition select_user_by_email :: "str \<Rightarrow> database \<Rightarrow> User list" where
  "select_user_by_email e db = filter (\<lambda>u. email u = Some e) (users db)"

text \<open>
  \<open>db.add(new_user); commit\<close>: the insert fails on a unique column that is already
  taken; the new row gets the next primary key and the time of the insert.
\<close>

definition insert_user :: "ext \<Rightarrow> str \<Rightarrow> str \<Rightarrow> str option \<Rightarrow> str option \<Rightarrow> database
    \<Rightarrow> error + database" where
  "insert_user E name hashed mail fname db =
     (if name \<in> set (map username (users db))
         \<or> (case mail of None \<Rightarrow> False | Some e \<Rightarrow> e \<in> set (emails (users db)))
      then Inl IntegrityError
      else
        (case next_id (random_rowid E (map user_id (users db))) (map user_id (users db)) of
           Inl e \<Rightarrow> Inl e
         | Inr new_id \<Rightarrow>
             Inr (db\<lparr>users := users db @
                    [\<lparr>user_id = new_id, username = name,
                      hashed_password = hashed, email = mail, full_name = fname,
                      user_created_at = utcnow E\<rparr>]\<rparr>)))"

definition register :: "ext \<Rightarrow> UserRegister \<Rightarrow> database \<Rightarrow> (error + TokenResponse) \<times> database" where
  "register E user_data db =
     (case scalar_one_or_none (select_user_by_username (reg_username user_data) db) of
        Inl e \<Rightarrow> (Inl e, db)
      | Inr (Some existing) \<Rightarrow> (Inl (HTTPException 400 ''Username already exists''), db)
      | Inr None \<Rightarrow>
          (case (if truthy_str (reg_email user_data)
                 then scalar_one_or_none (select_user_by_email (the (reg_email user_data)) db)
                 else Inr None) of
             Inl e \<Rightarrow> (Inl e, db)
           | Inr (Some existing) \<Rightarrow> (Inl (HTTPException 400 ''Email already registered''), db)
           | Inr None \<Rightarrow>
               (case hash_password E (reg_password user_data) of
                  Inl e \<Rightarrow> (Inl e, db)
                | Inr hashed \<Rightarrow>
                    (case insert_user E (reg_username user_data) hashed (reg_email user_data)
                            (reg_full_name user_data) db of
                       Inl e \<Rightarrow> (Inl e, db)
                     | Inr db' \<Rightarrow>
                         (case create_access_token E (reg_username user_data) of
                            Inl e \<Rightarrow> (Inl e, db')
                          | Inr token \<Rightarrow>
                              (Inr \<lparr>access_token = token, token_type = ascii ''bearer''\<rparr>,
                               db'))))))"

definition login :: "ext \<Rightarrow> str \<Rightarrow> str \<Rightarrow> database \<Rightarrow> error + TokenResponse" where
  "login E form_username form_password db =
     (case scalar_one_or_none (select_user_by_username form_username db) of
        Inl e \<Rightarrow> Inl e
      | Inr None \<Rightarrow> Inl (HTTPException 401 ''Invalid username or password'')
      | Inr (Some user) \<Rightarrow>
          if \<not> verify_password E form_password (hashed_password user)
          then Inl (HTTPException 401 ''Invalid username or password'')
          else
            (case create_access_token E form_username of
               Inl e \<Rightarrow> Inl e
             | Inr token \<Rightarrow> Inr \<lparr>access_token = token, token_type = ascii ''bearer''\<rparr>))"

text \<open>
  \<open>update_my_profile\<close> changes the attributes of the loaded \<open>current_user\<close> one after the
  other; nothing reaches the table before \<open>commit\<close>, which writes the row with the
  caller's primary key and fails on a unique column taken by another row.
\<close>

definition update_user_row :: "User \<Rightarrow> database \<Rightarrow> error + database" where
  "update_user_row user db =
     (if (case email user of
            None \<Rightarrow> False
          | Some e \<Rightarrow> e \<in> set (emails (filter (\<lambda>u. user_id u \<noteq> user_id user) (users db))))
      then Inl IntegrityError
      else Inr (db\<lparr>users := map (\<lambda>u. if user_id u = user_id user
                                      then u\<lparr>email := email user, full_name := full_name user,
                                             hashed_password := hashed_password user\<rparr>
                                      else u) (users db)\<rparr>))"

definition update_my_profile ::
  "ext \<Rightarrow> UserUpdate \<Rightarrow> User \<Rightarrow> database \<Rightarrow> (error + User) \<times> database" where
  "update_my_profile E update_data current_user db =
     (case (if truthy_str (upd_email update_data) \<and> upd_email update_data \<noteq> email current_user
            then (case scalar_one_or_none
                         (select_user_by_email (the (upd_email update_data)) db) of
                    Inl e \<Rightarrow> Inl e
                  | Inr (Some existing) \<Rightarrow> Inl (HTTPException 400 ''Email already registered'')
                  | Inr None \<Rightarrow> Inr (current_user\<lparr>email := upd_email update_data\<rparr>))
            else Inr current_user) of
        Inl e \<Rightarrow> (Inl e, db)
      | Inr user1 \<Rightarrow>
          (let user2 = (case upd_full_name update_data of
                          None \<Rightarrow> user1
                        | Some n \<Rightarrow> user1\<lparr>full_name := Some n\<rparr>)
           in case (if truthy_str (upd_password update_data)
                    then (case hash_password E (the (upd_password update_data)) of
                            Inl e \<Rightarrow> Inl e
                          | Inr hashed \<Rightarrow> Inr (user2\<lparr>hashed_password := hashed\<rparr>))
                    else Inr user2) of
                Inl e \<Rightarrow> (Inl e, db)
              | Inr user3 \<Rightarrow>
                  (case update_user_row user3 db of
                     Inl e \<Rightarrow> (Inl e, db)
                   | Inr db' \<Rightarrow> (Inr user3, db'))))"

section \<open>Book creation and listing\<close>

definition add_book ::
  "ext \<Rightarrow> BookCreate \<Rightarrow> User \<Rightarrow> database \<Rightarrow> (error + Book) \<times> database" where
  "add_book E book_data current_user db =
     (case next_id (random_rowid E (map book_id (books db))) (map book_id (books db)) of
        Inl e \<Rightarrow> (Inl e, db)
      | Inr new_id \<Rightarrow>
          (let new_book = \<lparr>book_id = new_id,
                           title = bc_title book_data, author = bc_author book_data,
                           year = bc_year book_data, description = bc_description book_data,
                           created_at = utcnow E, owner_id = user_id current_user\<rparr>
           in (Inr new_book, db\<lparr>books := books db @ [new_book]\<rparr>)))"


definition lower :: "nat \<Rightarrow> nat" where
  "lower c = (if 65 \<le> c \<and> c \<le> 90 then c + 32 else c)"









section \<open>Schema creation\<close>

text \<open>
  The database file holds each table or not.  \<open>MetaData.create_all\<close> creates the tables
  of the metadata that are missing and leaves the others alone; \<open>MetaData.drop_all\<close>
  drops the tables of the metadata.  \<open>models.py\<close> declares its own \<open>Base\<close>, on which
  \<open>users\<close> and \<open>books\<close> are declared; the \<open>Base\<close> of \<open>database.py\<close> has no table.
  \<open>main.py\<close> imports both modules with \<open>*\<close>, \<open>models\<close> last, so its \<open>Base\<close> is the one
  of \<open>models.py\<close>; \<open>create_tables\<close> uses the one of its own module.
\<close>

record storage =
  users_table :: "User list option"
  books_table :: "Book list option"

definition models_Base_metadata :: "string list" where
  "models_Base_metadata = [''books'', ''users'']"

definition database_Base_metadata :: "string list" where
  "database_Base_metadata = []"

definition create_table :: "'a list option \<Rightarrow> 'a list option" where
  "create_table t = (case t of None \<Rightarrow> Some [] | Some rows \<Rightarrow> Some rows)"

definition create_all :: "string list \<Rightarrow> storage \<Rightarrow> storage" where
  "create_all metadata st =
     st\<lparr>users_table := (if ''users'' \<in> set metadata then create_table (users_table st)
                        else users_table st),
        books_table := (if ''books'' \<in> set metadata then create_table (books_table st)
                        else books_table st)\<rparr>"

definition drop_all :: "string list \<Rightarrow> storage \<Rightarrow> storage" where
  "drop_all metadata st =
     st\<lparr>users_table := (if ''users'' \<in> set metadata then None else users_table st),
        books_table := (if ''books'' \<in> set metadata then None else books_table st)\<rparr>"

definition startup :: "storage \<Rightarrow> storage" where
  "startup st = create_all models_Base_metadata st"

definition create_tables :: "storage \<Rightarrow> storage" where
  "create_tables st = create_all database_Base_metadata (drop_all database_Base_metadata st)"

section \<open>Request validation\<close>

text \<open>The field constraints of \<open>schemes.py\<close>; lengths count code points.\<close>

definition valid_UserRegister :: "ext \<Rightarrow> UserRegister \<Rightarrow> bool" where
  "valid_UserRegister E d \<longleftrightarrow>
     3 \<le> length (reg_username d) \<and> length (reg_username d) \<le> 50 \<and>
     6 \<le> length (reg_password d) \<and> length (reg_password d) \<le> 50 \<and>
     (case reg_email d of None \<Rightarrow> True | Some e \<Rightarrow> email_str E e)"

definition valid_UserUpdate :: "ext \<Rightarrow> UserUpdate \<Rightarrow> bool" where
  "valid_UserUpdate E d \<longleftrightarrow>
     (case upd_email d of None \<Rightarrow> True | Some e \<Rightarrow> email_str E e) \<and>
     (case upd_password d of None \<Rightarrow> True | Some p \<Rightarrow> 6 \<le> length p)"

definition valid_BookCreate :: "BookCreate \<Rightarrow> bool" where
  "valid_BookCreate d \<longleftrightarrow>
     1 \<le> length (bc_title d) \<and> length (bc_title d) \<le> 200 \<and>
     1 \<le> length (bc_author d) \<and> length (bc_author d) \<le> 100 \<and>
     (case bc_year d of None \<Rightarrow> True | Some y \<Rightarrow> 1000 \<le> y \<and> y \<le> 2100)"

text \<open>
  The routes as the framework runs them: the dependency \<open>get_current_user\<close> first, then
  the validation of the body, then the handler, which receives the address as
  \<open>EmailStr\<close> normalised it.
\<close>

definition post_register ::
  "ext \<Rightarrow> UserRegister \<Rightarrow> database \<Rightarrow> (error + TokenResponse) \<times> database" where
  "post_register E body db =
     (if valid_UserRegister E body
      then register E (body\<lparr>reg_email := map_option (email_normalised E) (reg_email body)\<rparr>) db
      else (Inl RequestValidationError, db))"

definition put_me :: "ext \<Rightarrow> str \<Rightarrow> UserUpdate \<Rightarrow> database \<Rightarrow> (error + User) \<times> database" where
  "put_me E token body db =
     (case get_current_user E token db of
        Inl e \<Rightarrow> (Inl e, db)
      | Inr current_user \<Rightarrow>
          if valid_UserUpdate E body
          then update_my_profile E
                 (body\<lparr>upd_email := map_option (email_normalised E) (upd_email body)\<rparr>)
                 current_user db
          else (Inl RequestValidationError, db))"

section \<open>What is assumed of the libraries\<close>

text \<open>
  \<open>bcrypt\<close>: hashing at most 72 octets under a generated salt succeeds, the hash is made
  of ASCII characters, and \<open>checkpw\<close> accepts the input that was hashed.
\<close>

definition bcrypt_accepts :: "ext \<Rightarrow> bool" where
  "bcrypt_accepts E \<longleftrightarrow>
     (\<forall>pw. length pw \<le> 72 \<longrightarrow>
        (\<exists>hashed. hashpw E pw (gensalt E) = Inr hashed \<and> (\<forall>b\<in>set hashed. b < 0x80)
                  \<and> checkpw E pw hashed = Inr True))"

text \<open>
  The key of \<open>bcrypt\<close>: the password followed by a NUL octet, cut to 72 octets and
  repeated to fill the 72 octets that the cipher reads.  The hash depends on the
  password through this key only.
\<close>

definition expand_key :: "bytes \<Rightarrow> bytes" where
  "expand_key pw = take 72 (concat (replicate 72 (take 72 (pw @ [0]))))"

definition bcrypt_reads_key :: "ext \<Rightarrow> bool" where
  "bcrypt_reads_key E \<longleftrightarrow>
     (\<forall>pw pw' hashed. length pw \<le> 72 \<and> length pw' \<le> 72 \<and> expand_key pw' = expand_key pw
        \<longrightarrow> checkpw E pw' hashed = checkpw E pw hashed)"

text \<open>
  \<open>jose.jwt\<close>: a token that \<open>encode\<close> made from a payload with expiry \<open>t\<close> decodes, under
  the same key and algorithm, to that payload as long as the clock has not passed \<open>t\<close>,
  and raises a \<open>JWTError\<close> afterwards.
\<close>

definition jose_contract :: "ext \<Rightarrow> bool" where
  "jose_contract E \<longleftrightarrow>
     (\<forall>payload key alg token t now.
        jwt_encode E payload key alg = Inr token \<and> map_of payload ''exp'' = Some (ClaimTime t)
        \<longrightarrow> (if t < now then (\<exists>msg. jwt_decode E token key [alg] now = Inl (JWTError msg))
             else jwt_decode E token key [alg] now = Inr payload))"

section \<open>A small instance\<close>

text \<open>
  Two users with one book each, and an instance of the libraries small enough to
  compute with: a hash that spells the key of the password out after the salt, and a
  token that lists a key tag, the expiry and the subject.
\<close>

definition alice :: User where
  "alice = \<lparr>user_id = 1, username = ascii ''alice'', hashed_password = ascii ''h1'',
            email = Some (ascii ''alice@example.org''), full_name = None,
            user_created_at = 10\<rparr>"

definition bob :: User where
  "bob = \<lparr>user_id = 2, username = ascii ''bob'', hashed_password = ascii ''h2'',
          email = Some (ascii ''bob@example.org''), full_name = Some (ascii ''Bob''),
          user_created_at = 20\<rparr>"

definition dune :: Book where
  "dune = \<lparr>book_id = 1, title = ascii ''Dune'', author = ascii ''Herbert'',
           year = Some 1965, description = None, created_at = 100, owner_id = 1\<rparr>"

definition emma :: Book where
  "emma = \<lparr>book_id = 2, title = ascii ''Emma'', author = ascii ''Austen'',
           year = Some 1815, description = None, created_at = 200, owner_id = 2\<rparr>"

definition example_db :: database where
  "example_db = \<lparr>users = [alice, bob], books = [dune, emma]\<rparr>"

definition example_book_data :: BookCreate where
  "example_book_data = \<lparr>bc_title = ascii ''Dune Messiah'', bc_author = ascii ''Frank Herbert'',
                        bc_year = None, bc_description = Some (ascii ''sequel'')\<rparr>"

definition nibbles :: "8 word \<Rightarrow> bytes" where
  "nibbles b = [of_nat (unat b div 16), of_nat (unat b mod 16)]"

definition example_hashpw :: "bytes \<Rightarrow> bytes \<Rightarrow> error + bytes" where
  "example_hashpw pw salt =
     (if length pw \<le> 72 \<and> length salt = 2
      then Inr (salt @ concat (map nibbles (expand_key pw)))
      else Inl ValueError)"

definition example_checkpw :: "bytes \<Rightarrow> bytes \<Rightarrow> error + bool" where
  "example_checkpw pw hashed =
     (if length pw \<le> 72 \<and> 2 \<le> length hashed
      then Inr (hashed = take 2 hashed @ concat (map nibbles (expand_key pw)))
      else Inl ValueError)"

definition key_tag :: "str option \<Rightarrow> nat" where
  "key_tag key = (case key of None \<Rightarrow> 0 | Some k \<Rightarrow> Suc (sum_list k))"

definition example_jwt_encode :: "claims \<Rightarrow> str option \<Rightarrow> string \<Rightarrow> error + str" where
  "example_jwt_encode payload key alg =
     (case payload of
        [(k1, ClaimStr u), (k2, ClaimTime t)] \<Rightarrow>
          if k1 = ''sub'' \<and> k2 = ''exp'' \<and> 0 \<le> t \<and> alg = ''HS256''
          then Inr (key_tag key # nat t # u)
          else Inl (JWTError ''unsupported'')
      | _ \<Rightarrow> Inl (JWTError ''unsupported''))"

definition example_jwt_decode ::
  "str \<Rightarrow> str option \<Rightarrow> string list \<Rightarrow> datetime \<Rightarrow> error + claims" where
  "example_jwt_decode token key algs now =
     (case token of
        k # t # u \<Rightarrow>
          if k \<noteq> key_tag key \<or> ''HS256'' \<notin> set algs
          then Inl (JWTError ''Signature verification failed.'')
          else if int t < now then Inl (JWTError ''Signature has expired.'')
          else Inr [(''sub'', ClaimStr u), (''exp'', ClaimTime (int t))]
      | _ \<Rightarrow> Inl (JWTError ''Not enough segments''))"

definition example_ext :: ext where
  "example_ext =
     \<lparr>SECRET_KEY = Some (ascii ''key''), utcnow = 1000, gensalt = [0x24, 0x32],
      hashpw = example_hashpw, checkpw = example_checkpw,
      jwt_encode = example_jwt_encode, jwt_decode = example_jwt_decode,
      email_str = (\<lambda>e. 64 \<in> set e), email_normalised = map lower,
      random_rowid = (\<lambda>ids. None)\<rparr>"

text \<open>
  The hash of the password \<open>secret\<close> in this instance, the password \<open>secret\<close>, NUL,
  \<open>secret\<close>, and a database with a book whose author starts with a capital E acute
  (code point 201; the small e acute is 233).
\<close>

definition secret_hash :: str where
  "secret_hash = (case hash_password example_ext (ascii ''secret'') of
                    Inl e \<Rightarrow> [] | Inr h \<Rightarrow> h)"

definition secret_nul_secret :: str where
  "secret_nul_secret = ascii ''secret'' @ [0] @ ascii ''secret''"



definition example_storage :: storage where
  "example_storage = \<lparr>users_table = Some [alice, bob], books_table = Some [dune, emma]\<rparr>"

definition example_register :: UserRegister where
  "example_register = \<lparr>reg_username = ascii ''alice'', reg_password = ascii ''secret1'',
                       reg_email = None, reg_full_name = None\<rparr>"

definition example_update :: UserUpdate where
  "example_update = \<lparr>upd_email = Some (ascii ''bob@example.org''),
                     upd_full_name = Some (ascii ''Alice A.''),
                     upd_password = Some (ascii ''new-secret'')\<rparr>"

section \<open>Helper facts about queries\<close>

lemma scalar_one_or_none_empty: "scalar_one_or_none xs = Inr None \<longleftrightarrow> xs = []"
  by (cases xs rule: scalar_one_or_none.cases) simp_all

lemma scalar_one_or_none_Some: "scalar_one_or_none xs = Inr (Some x) \<longleftrightarrow> xs = [x]"
  by (cases xs rule: scalar_one_or_none.cases) auto

lemma filter_distinct_key:
  assumes "distinct (map f xs)" and "x \<in> set xs"
  shows "filter (\<lambda>y. f y = f x) xs = [x]"
  using assms
proof (induction xs)
  case Nil
  then show ?case by simp
next
  case (Cons a xs)
  show ?case
  proof (cases "a = x")
    case True
    have "\<forall>y\<in>set xs. f y \<noteq> f x"
      using Cons.prems(1) True by (auto simp: image_iff)
    then have "filter (\<lambda>y. f y = f x) xs = []"
      by (simp add: filter_empty_conv)
    with True show ?thesis by simp
  next
    case False
    with Cons.prems have "x \<in> set xs" by simp
    moreover have "f a \<noteq> f x"
      using Cons.prems(1) \<open>x \<in> set xs\<close> by (auto simp: image_iff)
    ultimately show ?thesis
      using Cons.IH Cons.prems(1) by simp
  qed
qed

lemma select_book_unique:
  assumes "distinct (map book_id (books db))"
    and "b \<in> set (books db)" and "book_id b = bid" and "owner_id b = user_id cu"
  shows "select_book bid cu db = [b]"
proof -
  have "set (select_book bid cu db) \<subseteq> set (filter (\<lambda>y. book_id y = book_id b) (books db))"
    using assms(3) by (auto simp: select_book_def)
  then have sub: "set (select_book bid cu db) \<subseteq> {b}"
    using filter_distinct_key [OF assms(1,2)] by simp
  have "distinct (books db)"
    using assms(1) by (rule distinct_map [THEN iffD1, THEN conjunct1])
  then have d: "distinct (select_book bid cu db)"
    by (simp add: select_book_def)
  have m: "b \<in> set (select_book bid cu db)"
    using assms by (simp add: select_book_def)
  from sub m have "set (select_book bid cu db) = {b}" by auto
  with d show ?thesis
    by (metis distinct.simps(2) distinct_singleton empty_iff empty_set insert_iff
        list.exhaust list.simps(15) set_ConsD)
qed

lemma select_book_empty:
  "select_book bid cu db = [] \<longleftrightarrow>
     \<not> (\<exists>b\<in>set (books db). book_id b = bid \<and> owner_id b = user_id cu)"
  by (auto simp: select_book_def filter_empty_conv)

section \<open>Ownership scoping of the single-book endpoints\<close>

lemma get_book_404:
  assumes "sqlite_integer bid" and "select_book bid cu db = []"
  shows "get_book bid cu db = Inl book_not_found"
  using assms by (simp add: get_book_def)

lemma update_book_404:
  assumes "sqlite_integer bid" and "select_book bid cu db = []"
  shows "update_book bid data cu db = (Inl book_not_found, db)"
  using assms by (simp add: update_book_def)

lemma delete_book_404:
  assumes "sqlite_integer bid" and "select_book bid cu db = []"
  shows "delete_book bid cu db = (Inl book_not_found, db)"
  using assms by (simp add: delete_book_def)

lemma select_book_member:
  assumes "b \<in> set (select_book bid cu db)"
  shows "b \<in> set (books db) \<and> book_id b = bid \<and> owner_id b = user_id cu"
  using assms by (simp add: select_book_def)

lemma get_book_Inr:
  assumes "get_book bid cu db = Inr b"
  shows "select_book bid cu db = [b]"
proof -
  from assms have "scalar_one_or_none (select_book bid cu db) = Inr (Some b)"
    by (auto simp: get_book_def split: if_splits sum.splits option.splits)
  then show ?thesis by (simp add: scalar_one_or_none_Some)
qed

lemma update_book_Inr:
  assumes "update_book bid data cu db = (Inr b', db')"
  shows "\<exists>b. select_book bid cu db = [b] \<and> b' = assign_book data b \<and>
             db' = db\<lparr>books := map (\<lambda>x. if book_id x = book_id b
                                          then assign_book data x else x) (books db)\<rparr>"
proof -
  from assms obtain b where "scalar_one_or_none (select_book bid cu db) = Inr (Some b)"
      and "b' = assign_book data b"
      and "db' = db\<lparr>books := map (\<lambda>x. if book_id x = book_id b
                                      then assign_book data x else x) (books db)\<rparr>"
    by (auto simp: update_book_def split: if_splits sum.splits option.splits)
  then show ?thesis by (auto simp: scalar_one_or_none_Some)
qed

lemma delete_book_Inr:
  assumes "delete_book bid cu db = (Inr msg, db')"
  shows "\<exists>b. select_book bid cu db = [b] \<and>
             db' = db\<lparr>books := filter (\<lambda>x. book_id x \<noteq> book_id b) (books db)\<rparr>"
proof -
  from assms obtain b where "scalar_one_or_none (select_book bid cu db) = Inr (Some b)"
      and "db' = db\<lparr>books := filter (\<lambda>x. book_id x \<noteq> book_id b) (books db)\<rparr>"
    by (auto simp: delete_book_def split: if_splits sum.splits option.splits)
  then show ?thesis by (auto simp: scalar_one_or_none_Some)
qed

lemma update_book_unchanged_on_error:
  assumes "update_book bid data cu db = (Inl e, db')"
  shows "db' = db"
  using assms by (auto simp: update_book_def split: if_splits sum.splits option.splits)

lemma delete_book_unchanged_on_error:
  assumes "delete_book bid cu db = (Inl e, db')"
  shows "db' = db"
  using assms by (auto simp: delete_book_def split: if_splits sum.splits option.splits)

lemma distinct_key_neq:
  assumes "distinct (map f xs)" and "x \<in> set xs" and "y \<in> set xs" and "x \<noteq> y"
  shows "f x \<noteq> f y"
proof
  assume "f x = f y"
  moreover have "inj_on f (set xs)"
    using assms(1) by (simp add: distinct_map)
  ultimately have "x = y"
    using assms(2,3) by (simp add: inj_on_def)
  with assms(4) show False by simp
qed

lemma foreign_book_survives_update:
  assumes d: "distinct (map book_id (books db))"
    and b: "b \<in> set (books db)" and o: "owner_id b \<noteq> user_id cu"
  shows "b \<in> set (books (snd (update_book bid data cu db)))"
proof (cases "fst (update_book bid data cu db)")
  case (Inl e)
  then have "update_book bid data cu db = (Inl e, snd (update_book bid data cu db))"
    by (simp add: prod_eq_iff)
  then have "snd (update_book bid data cu db) = db"
    by (rule update_book_unchanged_on_error)
  with b show ?thesis by simp
next
  case (Inr b')
  then have "update_book bid data cu db = (Inr b', snd (update_book bid data cu db))"
    by (simp add: prod_eq_iff)
  from update_book_Inr [OF this] obtain b0 where
    s: "select_book bid cu db = [b0]" and
    db': "snd (update_book bid data cu db) =
            db\<lparr>books := map (\<lambda>x. if book_id x = book_id b0
                                  then assign_book data x else x) (books db)\<rparr>"
    by blast
  have "b0 \<in> set (select_book bid cu db)" using s by simp
  then have "b0 \<in> set (books db) \<and> book_id b0 = bid \<and> owner_id b0 = user_id cu"
    by (rule select_book_member)
  then have b0: "b0 \<in> set (books db)" "owner_id b0 = user_id cu"
    by simp_all
  from o b0(2) have "b \<noteq> b0" by auto
  then have "book_id b \<noteq> book_id b0"
    using distinct_key_neq [OF d b b0(1)] by simp
  then have "(\<lambda>x. if book_id x = book_id b0 then assign_book data x else x) b = b"
    by simp
  with b have "b \<in> (\<lambda>x. if book_id x = book_id b0 then assign_book data x else x) ` set (books db)"
    by (rule_tac x = b in image_eqI) simp_all
  with db' show ?thesis by simp
qed

lemma foreign_book_survives_delete:
  assumes d: "distinct (map book_id (books db))"
    and b: "b \<in> set (books db)" and o: "owner_id b \<noteq> user_id cu"
  shows "b \<in> set (books (snd (delete_book bid cu db)))"
proof (cases "fst (delete_book bid cu db)")
  case (Inl e)
  then have "delete_book bid cu db = (Inl e, snd (delete_book bid cu db))"
    by (simp add: prod_eq_iff)
  then have "snd (delete_book bid cu db) = db"
    by (rule delete_book_unchanged_on_error)
  with b show ?thesis by simp
next
  case (Inr msg)
  then have "delete_book bid cu db = (Inr msg, snd (delete_book bid cu db))"
    by (simp add: prod_eq_iff)
  from delete_book_Inr [OF this] obtain b0 where
    s: "select_book bid cu db = [b0]" and
    db': "snd (delete_book bid cu db) =
            db\<lparr>books := filter (\<lambda>x. book_id x \<noteq> book_id b0) (books db)\<rparr>"
    by blast
  have "b0 \<in> set (select_book bid cu db)" using s by simp
  then have "b0 \<in> set (books db) \<and> book_id b0 = bid \<and> owner_id b0 = user_id cu"
    by (rule select_book_member)
  then have b0: "b0 \<in> set (books db)" "owner_id b0 = user_id cu"
    by simp_all
  from o b0(2) have "b \<noteq> b0" by auto
  then have "book_id b \<noteq> book_id b0"
    using distinct_key_neq [OF d b b0(1)] by simp
  with db' b show ?thesis by simp
qed


lemma example_db_books: "books example_db = [dune, emma]"
  by (simp add: example_db_def)

lemma example_ids:
  "book_id dune = 1" "book_id emma = 2" "owner_id dune = 1" "owner_id emma = 2"
  "user_id alice = 1" "user_id bob = 2"
  by (simp_all add: dune_def emma_def alice_def bob_def)

text \<open>
  A book id that does not fit 64 bits is answered by none of the three handlers with
  404: binding it raises \<open>OverflowError\<close>.
\<close>

theorem book_id_out_of_range_counterexample:
  "get_book (2 ^ 63) bob example_db = Inl OverflowError
   \<and> update_book (2 ^ 63) example_book_data bob example_db = (Inl OverflowError, example_db)
   \<and> delete_book (2 ^ 63) bob example_db = (Inl OverflowError, example_db)"
  by (simp add: get_book_def update_book_def delete_book_def sqlite_integer_def)

text \<open>
  C1 (as amended).  For a caller \<open>cu\<close> and a book id \<open>bid\<close> that fits 64 bits: when no
  book has that id and the caller as owner (the id is unused, or is the id of somebody
  else's book), \<open>get_book\<close>, \<open>update_book\<close> and \<open>delete_book\<close> all answer the same 404
  and leave the database as it is, and with unique primary keys the caller's own book is
  found.  For every book id: whenever one of the three succeeds, the book it worked on
  has that id and belongs to the caller; and with unique primary keys every book of
  another owner is still in the table, unchanged, after an update or a delete.
\<close>

theorem book_access_scoped_to_owner:
  assumes pk: "distinct (map book_id (books db))"
  shows
    "(sqlite_integer bid
        \<and> \<not> (\<exists>b\<in>set (books db). book_id b = bid \<and> owner_id b = user_id cu) \<longrightarrow>
        get_book bid cu db = Inl (HTTPException 404 ''Book not found'') \<and>
        update_book bid data cu db = (Inl (HTTPException 404 ''Book not found''), db) \<and>
        delete_book bid cu db = (Inl (HTTPException 404 ''Book not found''), db))
     \<and> (\<forall>b. get_book bid cu db = Inr b \<longrightarrow>
           b \<in> set (books db) \<and> book_id b = bid \<and> owner_id b = user_id cu)
     \<and> (\<forall>b' db'. update_book bid data cu db = (Inr b', db') \<longrightarrow>
           (\<exists>b\<in>set (books db). book_id b = bid \<and> owner_id b = user_id cu
                                 \<and> b' = assign_book data b))
     \<and> (\<forall>msg db'. delete_book bid cu db = (Inr msg, db') \<longrightarrow>
           (\<exists>b\<in>set (books db). book_id b = bid \<and> owner_id b = user_id cu
                                 \<and> b \<notin> set (books db')))
     \<and> (\<forall>b\<in>set (books db). sqlite_integer bid \<and> book_id b = bid
                               \<and> owner_id b = user_id cu \<longrightarrow>
           get_book bid cu db = Inr b)
     \<and> (\<forall>b\<in>set (books db). owner_id b \<noteq> user_id cu \<longrightarrow>
           b \<in> set (books (snd (update_book bid data cu db))) \<and>
           b \<in> set (books (snd (delete_book bid cu db))))"
proof (intro conjI allI impI ballI)
  assume a: "sqlite_integer bid
        \<and> \<not> (\<exists>b\<in>set (books db). book_id b = bid \<and> owner_id b = user_id cu)"
  then have r: "sqlite_integer bid" and e: "select_book bid cu db = []"
    by (simp_all add: select_book_empty)
  show "get_book bid cu db = Inl (HTTPException 404 ''Book not found'')"
    using get_book_404 [OF r e] by (simp add: book_not_found_def)
  show "update_book bid data cu db = (Inl (HTTPException 404 ''Book not found''), db)"
    using update_book_404 [OF r e] by (simp add: book_not_found_def)
  show "delete_book bid cu db = (Inl (HTTPException 404 ''Book not found''), db)"
    using delete_book_404 [OF r e] by (simp add: book_not_found_def)
next
  fix b assume "get_book bid cu db = Inr b"
  then have "select_book bid cu db = [b]"
    by (rule get_book_Inr)
  then have "b \<in> set (select_book bid cu db)"
    by simp
  then have m: "b \<in> set (books db) \<and> book_id b = bid \<and> owner_id b = user_id cu"
    by (rule select_book_member)
  from m show "b \<in> set (books db)" by simp
  from m show "book_id b = bid" by simp
  from m show "owner_id b = user_id cu" by simp
next
  fix b' db' assume "update_book bid data cu db = (Inr b', db')"
  from update_book_Inr [OF this] obtain b where
    s: "select_book bid cu db = [b]" and b': "b' = assign_book data b"
    by blast
  have "b \<in> set (select_book bid cu db)" using s by simp
  then have "b \<in> set (books db) \<and> book_id b = bid \<and> owner_id b = user_id cu"
    by (rule select_book_member)
  with b' show "\<exists>b\<in>set (books db). book_id b = bid \<and> owner_id b = user_id cu
                  \<and> b' = assign_book data b"
    by blast
next
  fix msg db' assume "delete_book bid cu db = (Inr msg, db')"
  from delete_book_Inr [OF this] obtain b where
    s: "select_book bid cu db = [b]" and
    db': "db' = db\<lparr>books := filter (\<lambda>x. book_id x \<noteq> book_id b) (books db)\<rparr>"
    by blast
  have "b \<in> set (select_book bid cu db)" using s by simp
  then have "b \<in> set (books db) \<and> book_id b = bid \<and> owner_id b = user_id cu"
    by (rule select_book_member)
  moreover have "b \<notin> set (books db')" using db' by simp
  ultimately show "\<exists>b\<in>set (books db). book_id b = bid \<and> owner_id b = user_id cu
                     \<and> b \<notin> set (books db')"
    by blast
next
  fix b assume "b \<in> set (books db)"
    and "sqlite_integer bid \<and> book_id b = bid \<and> owner_id b = user_id cu"
  then have "select_book bid cu db = [b]" and "sqlite_integer bid"
    using select_book_unique [OF pk] by blast+
  then show "get_book bid cu db = Inr b"
    by (simp add: get_book_def)
next
  fix b assume b: "b \<in> set (books db)" and o: "owner_id b \<noteq> user_id cu"
  show "b \<in> set (books (snd (update_book bid data cu db)))"
    using pk b o by (rule foreign_book_survives_update)
  show "b \<in> set (books (snd (delete_book bid cu db)))"
    using pk b o by (rule foreign_book_survives_delete)
qed

theorem book_access_scoped_to_owner_witness:
  "distinct (map book_id (books example_db))
   \<and> sqlite_integer 1 \<and> sqlite_integer 7
   \<and> dune \<in> set (books example_db) \<and> owner_id dune \<noteq> user_id bob
   \<and> get_book 1 bob example_db = Inl (HTTPException 404 ''Book not found'')
   \<and> update_book 1 example_book_data bob example_db
       = (Inl (HTTPException 404 ''Book not found''), example_db)
   \<and> delete_book 1 bob example_db = (Inl (HTTPException 404 ''Book not found''), example_db)
   \<and> get_book 7 bob example_db = Inl (HTTPException 404 ''Book not found'')
   \<and> get_book 1 alice example_db = Inr dune
   \<and> dune \<in> set (books (snd (update_book 2 example_book_data bob example_db)))
   \<and> dune \<in> set (books (snd (delete_book 2 bob example_db)))"
proof -
  have pk: "distinct (map book_id (books example_db))"
    by (simp add: example_db_books example_ids)
  have r1: "sqlite_integer 1" and r7: "sqlite_integer 7"
    by (simp_all add: sqlite_integer_def)
  have n1: "\<not> (\<exists>b\<in>set (books example_db). book_id b = 1 \<and> owner_id b = user_id bob)"
    by (simp add: example_db_books example_ids)
  have n7: "\<not> (\<exists>b\<in>set (books example_db). book_id b = 7 \<and> owner_id b = user_id bob)"
    by (simp add: example_db_books example_ids)
  have m1: "dune \<in> set (books example_db)"
    by (simp add: example_db_books)
  have m2: "owner_id dune \<noteq> user_id bob"
    by (simp add: example_ids)
  have m3: "sqlite_integer 1 \<and> book_id dune = 1 \<and> owner_id dune = user_id alice"
    by (simp add: example_ids r1)
  note a = book_access_scoped_to_owner [OF pk, of 1 bob example_book_data,
      THEN conjunct1, THEN mp, OF conjI [OF r1 n1]]
  note b = book_access_scoped_to_owner [OF pk, of 7 bob example_book_data,
      THEN conjunct1, THEN mp, OF conjI [OF r7 n7], THEN conjunct1]
  note c = book_access_scoped_to_owner [OF pk, of 1 alice example_book_data,
      THEN conjunct2, THEN conjunct2, THEN conjunct2, THEN conjunct2, THEN conjunct1,
      THEN bspec, OF m1, THEN mp, OF m3]
  note d = book_access_scoped_to_owner [OF pk, of 2 bob example_book_data,
      THEN conjunct2, THEN conjunct2, THEN conjunct2, THEN conjunct2, THEN conjunct2,
      THEN bspec, OF m1, THEN mp, OF m2]
  from pk r1 r7 m1 m2 a b c d show ?thesis
    by (intro conjI) (elim conjE, assumption)+
qed

section \<open>Schema creation at startup\<close>

text \<open>
  The claim that every restart wipes the rows fails on a database file that holds both
  tables: \<open>startup\<close> leaves the rows where they are.
\<close>

theorem startup_wipes_data_counterexample:
  "users_table (startup example_storage) = Some [alice, bob]
   \<and> books_table (startup example_storage) = Some [dune, emma]"
  by (simp add: startup_def create_all_def create_table_def example_storage_def
      models_Base_metadata_def)

text \<open>
  C5 (as amended).  \<open>startup\<close> runs \<open>create_all\<close> only: a table that is missing is
  created empty, a table that exists keeps every row, nothing is dropped; and
  \<open>create_tables\<close>, which no code calls, drops and creates the tables of a metadata
  object that has none, so it changes nothing either.
\<close>

theorem startup_creates_missing_tables_only:
  "users_table (startup st) = Some (case users_table st of None \<Rightarrow> [] | Some rows \<Rightarrow> rows)
   \<and> books_table (startup st) = Some (case books_table st of None \<Rightarrow> [] | Some rows \<Rightarrow> rows)
   \<and> create_tables st = st"
  by (simp add: startup_def create_tables_def create_all_def drop_all_def create_table_def
      models_Base_metadata_def database_Base_metadata_def split: option.splits)

section \<open>Registration with a taken username\<close>

lemma select_user_by_username_unique:
  assumes "distinct (map username (users db))" and "u \<in> set (users db)"
  shows "select_user_by_username (username u) db = [u]"
  unfolding select_user_by_username_def
  using assms by (rule filter_distinct_key)

text \<open>
  C4.  When the username of the payload is the username of a stored user, \<open>register\<close>
  fails with 400 and the database, so the table of users, is what it was; the route
  answers that 400, or 422 when the payload does not satisfy its schema, and changes
  nothing in either case.
\<close>

theorem register_taken_username:
  assumes "distinct (map username (users db))"
    and "u \<in> set (users db)" and "username u = reg_username user_data"
  shows "register E user_data db = (Inl (HTTPException 400 ''Username already exists''), db)
         \<and> post_register E user_data db
             = (Inl (if valid_UserRegister E user_data
                     then HTTPException 400 ''Username already exists''
                     else RequestValidationError), db)"
proof -
  have s: "select_user_by_username (reg_username user_data) db = [u]"
    using select_user_by_username_unique [OF assms(1,2)] assms(3) by simp
  have r: "register E d db = (Inl (HTTPException 400 ''Username already exists''), db)"
    if "reg_username d = reg_username user_data" for d
    using s that by (simp add: register_def)
  have "register E user_data db = (Inl (HTTPException 400 ''Username already exists''), db)"
    by (rule r) simp
  moreover have "register E
                   (user_data\<lparr>reg_email := map_option (email_normalised E) (reg_email user_data)\<rparr>)
                   db
                 = (Inl (HTTPException 400 ''Username already exists''), db)"
    by (rule r) simp
  ultimately show ?thesis by (simp add: post_register_def)
qed

lemma example_db_users: "users example_db = [alice, bob]"
  by (simp add: example_db_def)

lemma example_usernames:
  "username alice = ascii ''alice''" "username bob = ascii ''bob''"
  by (simp_all add: alice_def bob_def)

lemma ascii_alice_bob: "ascii ''alice'' \<noteq> ascii ''bob''"
  by (simp add: ascii_def)

theorem register_taken_username_witness:
  "distinct (map username (users example_db)) \<and> alice \<in> set (users example_db)
   \<and> username alice = reg_username example_register
   \<and> register example_ext example_register example_db
       = (Inl (HTTPException 400 ''Username already exists''), example_db)"
proof -
  have d: "distinct (map username (users example_db))"
    by (simp add: example_db_users example_usernames ascii_alice_bob)
  have m: "alice \<in> set (users example_db)"
    by (simp add: example_db_users)
  have n: "username alice = reg_username example_register"
    by (simp add: example_usernames example_register_def)
  from register_taken_username [OF d m n, of example_ext, THEN conjunct1] d m n
  show ?thesis by simp
qed

section \<open>Profile update with a taken email\<close>

lemma emails_Cons:
  "emails (u # us) = (case email u of None \<Rightarrow> [] | Some e \<Rightarrow> [e]) @ emails us"
  by (simp add: emails_def)

lemma email_in_emails:
  assumes "u \<in> set us" and "email u = Some e"
  shows "e \<in> set (emails us)"
proof -
  have "e \<in> set (case email u of None \<Rightarrow> [] | Some e \<Rightarrow> [e])"
    using assms(2) by simp
  with assms(1) show ?thesis
    unfolding emails_def set_concat by (simp add: rev_bexI)
qed

lemma select_by_email_unique:
  assumes "distinct (emails us)" and "u \<in> set us" and "email u = Some e"
  shows "filter (\<lambda>x. email x = Some e) us = [u]"
  using assms
proof (induction us)
  case Nil
  then show ?case by simp
next
  case (Cons a us)
  show ?case
  proof (cases "email a = Some e")
    case True
    from Cons.prems(1) True have "e \<notin> set (emails us)"
      by (simp add: emails_Cons)
    then have none: "\<forall>x\<in>set us. email x \<noteq> Some e"
      using email_in_emails by blast
    then have "filter (\<lambda>x. email x = Some e) us = []"
      by (simp add: filter_empty_conv)
    moreover have "u = a"
      using Cons.prems(2,3) none by auto
    ultimately show ?thesis using True by simp
  next
    case False
    with Cons.prems(2,3) have "u \<in> set us" by auto
    moreover have "distinct (emails us)"
      using Cons.prems(1) by (simp add: emails_Cons split: option.splits)
    ultimately have "filter (\<lambda>x. email x = Some e) us = [u]"
      using Cons.IH Cons.prems(3) by simp
    with False show ?thesis by simp
  qed
qed

text \<open>
  C6.  When the email of the payload is the email of another account, \<open>update_my_profile\<close>
  fails with 400 and the database, hence the caller's row with its email, full name and
  password hash, is what it was, whatever else the payload asks for.
\<close>

theorem update_my_profile_taken_email:
  assumes "distinct (emails (users db))"
    and "current_user \<in> set (users db)" and "other \<in> set (users db)"
    and "user_id other \<noteq> user_id current_user"
    and "email other = Some e" and "e \<noteq> []"
    and "upd_email update_data = Some e"
  shows "update_my_profile E update_data current_user db
           = (Inl (HTTPException 400 ''Email already registered''), db)"
proof -
  have sel: "select_user_by_email e db = [other]"
    unfolding select_user_by_email_def
    using assms(1,3,5) by (rule select_by_email_unique)
  have "email current_user \<noteq> Some e"
  proof
    assume "email current_user = Some e"
    with assms(1,2) have "filter (\<lambda>x. email x = Some e) (users db) = [current_user]"
      by (rule select_by_email_unique)
    with sel have "other = current_user"
      by (simp add: select_user_by_email_def)
    with assms(4) show False by simp
  qed
  with assms(6,7) sel show ?thesis
    by (simp add: update_my_profile_def truthy_str_def)
qed

lemma example_emails:
  "email alice = Some (ascii ''alice@example.org'')" "email bob = Some (ascii ''bob@example.org'')"
  by (simp_all add: alice_def bob_def)

lemma ascii_emails_differ: "ascii ''alice@example.org'' \<noteq> ascii ''bob@example.org''"
  by (simp add: ascii_def)

theorem update_my_profile_taken_email_witness:
  "distinct (emails (users example_db)) \<and> alice \<in> set (users example_db)
   \<and> bob \<in> set (users example_db) \<and> user_id bob \<noteq> user_id alice
   \<and> email bob = upd_email example_update
   \<and> update_my_profile example_ext example_update alice example_db
       = (Inl (HTTPException 400 ''Email already registered''), example_db)"
proof -
  have d: "distinct (emails (users example_db))"
    by (simp add: example_db_users emails_def example_emails ascii_emails_differ)
  have a: "alice \<in> set (users example_db)" and b: "bob \<in> set (users example_db)"
    by (simp_all add: example_db_users)
  have i: "user_id bob \<noteq> user_id alice"
    by (simp add: example_ids)
  have e: "email bob = Some (ascii ''bob@example.org'')"
    by (rule example_emails)
  have n: "ascii ''bob@example.org'' \<noteq> []"
    by (simp add: ascii_def)
  have u: "upd_email example_update = Some (ascii ''bob@example.org'')"
    by (simp add: example_update_def)
  from update_my_profile_taken_email [OF d a b i e n u, of example_ext] d a b i e u
  show ?thesis by simp
qed

section \<open>Effect of a book update\<close>

text \<open>
  C8.  When \<open>update_book\<close> succeeds, the row it returns is the caller's book with that id
  carrying the payload's title, author, year and description (an absent year or
  description included) and the old id, owner and creation time; the table of users is
  the same, and the table of books differs in that one row only.
\<close>

theorem update_book_effect:
  assumes pk: "distinct (map book_id (books db))"
    and ok: "update_book bid book_data current_user db = (Inr book', db')"
  shows "\<exists>book\<in>set (books db).
           book_id book = bid \<and> owner_id book = user_id current_user
           \<and> title book' = bc_title book_data \<and> author book' = bc_author book_data
           \<and> year book' = bc_year book_data \<and> description book' = bc_description book_data
           \<and> book_id book' = book_id book \<and> owner_id book' = owner_id book
           \<and> created_at book' = created_at book
           \<and> users db' = users db
           \<and> books db' = map (\<lambda>b. if b = book then book' else b) (books db)"
proof -
  from update_book_Inr [OF ok] obtain book where
    s: "select_book bid current_user db = [book]" and
    b': "book' = assign_book book_data book" and
    db': "db' = db\<lparr>books := map (\<lambda>x. if book_id x = book_id book
                                      then assign_book book_data x else x) (books db)\<rparr>"
    by blast
  have "book \<in> set (select_book bid current_user db)" using s by simp
  then have m: "book \<in> set (books db) \<and> book_id book = bid
                \<and> owner_id book = user_id current_user"
    by (rule select_book_member)
  have same: "\<And>x. x \<in> set (books db) \<Longrightarrow> (book_id x = book_id book) = (x = book)"
    using distinct_key_neq [OF pk] m by blast
  have "map (\<lambda>x. if book_id x = book_id book then assign_book book_data x else x) (books db)
          = map (\<lambda>b. if b = book then book' else b) (books db)"
    by (rule map_cong) (simp_all add: same b')
  with db' have "books db' = map (\<lambda>b. if b = book then book' else b) (books db)"
    by simp
  moreover have "users db' = users db" using db' by simp
  moreover have "title book' = bc_title book_data \<and> author book' = bc_author book_data
           \<and> year book' = bc_year book_data \<and> description book' = bc_description book_data
           \<and> book_id book' = book_id book \<and> owner_id book' = owner_id book
           \<and> created_at book' = created_at book"
    by (simp add: b' assign_book_def)
  ultimately show ?thesis using m by blast
qed

theorem update_book_effect_witness:
  "distinct (map book_id (books example_db))
   \<and> update_book 1 example_book_data alice example_db
       = (Inr (assign_book example_book_data dune),
          example_db\<lparr>books := [assign_book example_book_data dune, emma]\<rparr>)
   \<and> (\<exists>book\<in>set (books example_db).
         book_id book = 1 \<and> owner_id book = user_id alice
         \<and> title (assign_book example_book_data dune) = bc_title example_book_data
         \<and> author (assign_book example_book_data dune) = bc_author example_book_data
         \<and> year (assign_book example_book_data dune) = bc_year example_book_data
         \<and> description (assign_book example_book_data dune) = bc_description example_book_data
         \<and> book_id (assign_book example_book_data dune) = book_id book
         \<and> owner_id (assign_book example_book_data dune) = owner_id book
         \<and> created_at (assign_book example_book_data dune) = created_at book
         \<and> users (example_db\<lparr>books := [assign_book example_book_data dune, emma]\<rparr>)
             = users example_db
         \<and> books (example_db\<lparr>books := [assign_book example_book_data dune, emma]\<rparr>)
             = map (\<lambda>b. if b = book then assign_book example_book_data dune else b)
                 (books example_db))"
proof -
  have pk: "distinct (map book_id (books example_db))"
    by (simp add: example_db_books example_ids)
  have sel: "select_book 1 alice example_db = [dune]"
    by (simp add: select_book_def example_db_books example_ids)
  have ok: "update_book 1 example_book_data alice example_db
              = (Inr (assign_book example_book_data dune),
                 example_db\<lparr>books := [assign_book example_book_data dune, emma]\<rparr>)"
    by (simp add: update_book_def sqlite_integer_def sel example_db_books example_ids)
  from pk ok update_book_effect [OF pk ok] show ?thesis
    by (intro conjI)
qed

section \<open>Truncation and encoding\<close>

lemma truncate_72: "(if length bs > 72 then take 72 bs else bs) = take 72 bs"
  by simp

lemma hash_password_eq:
  "hash_password E password =
     (case encode_utf8 password of
        Inl e \<Rightarrow> Inl e
      | Inr pb \<Rightarrow> (case hashpw E (take 72 pb) (gensalt E) of
                     Inl e \<Rightarrow> Inl e | Inr hashed \<Rightarrow> decode_utf8 hashed))"
  by (simp add: hash_password_def Let_def split: sum.splits)

lemma verify_password_try_eq:
  "verify_password_try E p h =
     (case encode_utf8 p of
        Inl e \<Rightarrow> Inl e
      | Inr pb \<Rightarrow> (case encode_utf8 h of
                     Inl e \<Rightarrow> Inl e | Inr hb \<Rightarrow> checkpw E (take 72 pb) hb))"
  by (simp add: verify_password_try_def Let_def split: sum.splits)

lemma unat_ascii: "(b :: 8 word) < 0x80 \<Longrightarrow> unat b < 0x80"
  by (simp add: word_less_nat_alt)

lemma decode_utf8_ascii:
  assumes "\<forall>b\<in>set bs. b < 0x80"
  shows "decode_utf8 bs = Inr (map unat bs)"
  using assms
  by (induction bs rule: decode_utf8.induct) (simp_all add: unat_ascii prepend_def)

lemma encode_utf8_ascii:
  assumes "\<forall>b\<in>set bs. b < 0x80"
  shows "encode_utf8 (map unat bs) = Inr bs"
  using assms
  by (induction bs) (simp_all add: unat_ascii encode_char_def)

section \<open>Hashing and verifying a password\<close>

lemma hash_password_under_contract:
  assumes "bcrypt_accepts E" and "encode_utf8 p = Inr pb"
  shows "\<exists>hashed. hashpw E (take 72 pb) (gensalt E) = Inr hashed
           \<and> checkpw E (take 72 pb) hashed = Inr True
           \<and> hash_password E p = Inr (map unat hashed)
           \<and> encode_utf8 (map unat hashed) = Inr hashed"
proof -
  have "length (take 72 pb) \<le> 72" by simp
  with assms(1) obtain hashed where
    h: "hashpw E (take 72 pb) (gensalt E) = Inr hashed" and
    a: "\<forall>b\<in>set hashed. b < 0x80" and
    c: "checkpw E (take 72 pb) hashed = Inr True"
    unfolding bcrypt_accepts_def by blast
  have "hash_password E p = Inr (map unat hashed)"
    by (simp add: hash_password_eq assms(2) h decode_utf8_ascii [OF a])
  with h c encode_utf8_ascii [OF a] show ?thesis by blast
qed

lemma verify_password_is_checkpw:
  assumes "encode_utf8 p' = Inr pb'" and "encode_utf8 h = Inr hb"
  shows "verify_password E p' h = (checkpw E (take 72 pb') hb = Inr True)"
  using assms
  by (auto simp: verify_password_def verify_password_try_eq split: sum.splits)

lemma key_collision:
  assumes "bcrypt_accepts E" and "bcrypt_reads_key E"
    and "encode_utf8 p = Inr pb" and "encode_utf8 p' = Inr pb'"
    and "expand_key (take 72 pb') = expand_key (take 72 pb)"
  shows "\<exists>h. hash_password E p = Inr h \<and> verify_password E p' h"
proof -
  from hash_password_under_contract [OF assms(1,3)] obtain hashed where
    c: "checkpw E (take 72 pb) hashed = Inr True" and
    hp: "hash_password E p = Inr (map unat hashed)" and
    en: "encode_utf8 (map unat hashed) = Inr hashed"
    by blast
  have "length (take 72 pb) \<le> 72" and "length (take 72 pb') \<le> 72"
    by simp_all
  with assms(2,5) have "checkpw E (take 72 pb') hashed = checkpw E (take 72 pb) hashed"
    unfolding bcrypt_reads_key_def by blast
  with c have "verify_password E p' (map unat hashed)"
    by (simp add: verify_password_is_checkpw [OF assms(4) en])
  with hp show ?thesis by blast
qed

subsection \<open>The small instance of bcrypt\<close>

lemma unat_of_nat_byte: "n < 256 \<Longrightarrow> unat (of_nat n :: 8 word) = n"
  by (simp add: unat_of_nat)

lemma nibbles_ascii: "\<forall>b\<in>set (concat (map nibbles pw)). b < 0x80"
proof -
  have small: "\<And>n. n < 16 \<Longrightarrow> (of_nat n :: 8 word) < 0x80"
    by (simp add: word_less_nat_alt unat_of_nat_byte)
  have "\<And>y :: 8 word. unat y div 16 < 16"
  proof -
    fix y :: "8 word"
    have "unat y < 256"
      using unsigned_less [of y, where 'a = nat] by simp
    then show "unat y div 16 < 16" by arith
  qed
  then show ?thesis
    by (auto simp: nibbles_def small)
qed

lemma example_bcrypt_accepts: "bcrypt_accepts example_ext"
  unfolding bcrypt_accepts_def
proof (intro allI impI)
  fix pw :: bytes assume "length pw \<le> 72"
  then have "hashpw example_ext pw (gensalt example_ext)
               = Inr ([0x24, 0x32] @ concat (map nibbles (expand_key pw)))"
    by (simp add: example_ext_def example_hashpw_def)
  moreover have "\<forall>b\<in>set ([0x24, 0x32] @ concat (map nibbles (expand_key pw))).
                   b < (0x80 :: 8 word)"
    using nibbles_ascii [of "expand_key pw"] by simp
  moreover have "checkpw example_ext pw ([0x24, 0x32] @ concat (map nibbles (expand_key pw)))
                   = Inr True"
    using \<open>length pw \<le> 72\<close> by (simp add: example_ext_def example_checkpw_def)
  ultimately show "\<exists>hashed. hashpw example_ext pw (gensalt example_ext) = Inr hashed
      \<and> (\<forall>b\<in>set hashed. b < 0x80) \<and> checkpw example_ext pw hashed = Inr True"
    by blast
qed

lemma example_bcrypt_reads_key: "bcrypt_reads_key example_ext"
  unfolding bcrypt_reads_key_def
  by (simp add: example_ext_def example_checkpw_def)

lemma encode_utf8_replicate_a: "encode_utf8 (replicate n 97) = Inr (replicate n 97)"
  by (induction n) (simp_all add: encode_char_def)

lemma encode_utf8_append_b:
  "encode_utf8 (replicate n 97 @ [98]) = Inr (replicate n 97 @ [98])"
  by (induction n) (simp_all add: encode_char_def)

lemma encode_secret:
  "encode_utf8 (ascii ''secret'') = Inr [0x73, 0x65, 0x63, 0x72, 0x65, 0x74]"
  by (simp add: ascii_def encode_char_def)

lemma encode_secret_nul_secret:
  "encode_utf8 secret_nul_secret
     = Inr [0x73, 0x65, 0x63, 0x72, 0x65, 0x74, 0, 0x73, 0x65, 0x63, 0x72, 0x65, 0x74]"
  by (simp add: secret_nul_secret_def ascii_def encode_char_def)

lemma secret_keys:
  "expand_key (take 72 [0x73, 0x65, 0x63, 0x72, 0x65, 0x74, 0, 0x73, 0x65, 0x63, 0x72, 0x65, 0x74])
     = expand_key (take 72 [0x73, 0x65, 0x63, 0x72, 0x65, 0x74])"
  by code_simp

text \<open>
  A wrong password that \<open>verify_password\<close> accepts: \<open>bcrypt\<close> reads \<open>secret\<close> and
  \<open>secret\<close>, NUL, \<open>secret\<close> as the same key, although their encodings, 6 and 13
  octets long, differ within the first 72 octets.
\<close>

theorem wrong_password_rejected_counterexample:
  "hash_password example_ext (ascii ''secret'') = Inr secret_hash
   \<and> encode_utf8 (ascii ''secret'') = Inr [0x73, 0x65, 0x63, 0x72, 0x65, 0x74]
   \<and> encode_utf8 secret_nul_secret
       = Inr [0x73, 0x65, 0x63, 0x72, 0x65, 0x74, 0, 0x73, 0x65, 0x63, 0x72, 0x65, 0x74]
   \<and> take 72 [0x73, 0x65, 0x63, 0x72, 0x65, 0x74, 0, 0x73, 0x65, 0x63, 0x72, 0x65, 0x74 :: 8 word]
       \<noteq> take 72 [0x73, 0x65, 0x63, 0x72, 0x65, 0x74]
   \<and> verify_password example_ext secret_nul_secret secret_hash"
proof -
  from key_collision [OF example_bcrypt_accepts example_bcrypt_reads_key
      encode_secret encode_secret_nul_secret secret_keys]
  obtain h where h: "hash_password example_ext (ascii ''secret'') = Inr h"
    and v: "verify_password example_ext secret_nul_secret h"
    by blast
  from h have "secret_hash = h"
    by (simp add: secret_hash_def)
  with h v have "hash_password example_ext (ascii ''secret'') = Inr secret_hash"
    and "verify_password example_ext secret_nul_secret secret_hash"
    by simp_all
  moreover have "take 72 [0x73, 0x65, 0x63, 0x72, 0x65, 0x74, 0, 0x73, 0x65, 0x63, 0x72, 0x65,
                          0x74 :: 8 word] \<noteq> take 72 [0x73, 0x65, 0x63, 0x72, 0x65, 0x74]"
    by simp
  ultimately show ?thesis
    using encode_secret encode_secret_nul_secret by (intro conjI)
qed

text \<open>
  C2 (as amended).  For a password \<open>p\<close>, text that UTF-8 encodes, \<open>hash_password\<close>
  returns a hash that \<open>verify_password\<close> accepts for \<open>p\<close>, however long the encoding
  is, and for every \<open>p'\<close> whose encoding has the same first 72 octets; for any \<open>p'\<close> the
  answer of \<open>verify_password\<close> is the answer of \<open>bcrypt\<close> to the first 72 octets of the
  encoding of \<open>p'\<close>.
\<close>

theorem verify_hash_password:
  assumes "bcrypt_accepts E"
    and "encode_utf8 p = Inr pb" and "encode_utf8 p' = Inr pb'"
  shows "\<exists>h hb. hash_password E p = Inr h \<and> encode_utf8 h = Inr hb
           \<and> verify_password E p h
           \<and> (take 72 pb' = take 72 pb \<longrightarrow> verify_password E p' h)
           \<and> verify_password E p' h = (checkpw E (take 72 pb') hb = Inr True)"
proof -
  from hash_password_under_contract [OF assms(1,2)] obtain hashed where
    c: "checkpw E (take 72 pb) hashed = Inr True" and
    hp: "hash_password E p = Inr (map unat hashed)" and
    en: "encode_utf8 (map unat hashed) = Inr hashed"
    by blast
  have v: "verify_password E p (map unat hashed)"
    by (simp add: verify_password_is_checkpw [OF assms(2) en] c)
  have any: "verify_password E p' (map unat hashed)
               = (checkpw E (take 72 pb') hashed = Inr True)"
    by (rule verify_password_is_checkpw [OF assms(3) en])
  have same: "take 72 pb' = take 72 pb \<longrightarrow> verify_password E p' (map unat hashed)"
    by (simp add: any c)
  from hp en v same any show ?thesis by blast
qed

theorem verify_hash_password_witness:
  "bcrypt_accepts example_ext
   \<and> encode_utf8 (replicate 80 97) = Inr (replicate 80 97)
   \<and> encode_utf8 (replicate 72 97 @ [98]) = Inr (replicate 72 97 @ [98])
   \<and> take 72 (replicate 72 97 @ [98 :: 8 word]) = take 72 (replicate 80 97)
   \<and> (\<exists>h. hash_password example_ext (replicate 80 97) = Inr h
          \<and> verify_password example_ext (replicate 80 97) h
          \<and> verify_password example_ext (replicate 72 97 @ [98]) h)"
proof -
  note a = example_bcrypt_accepts
  note e80 = encode_utf8_replicate_a [of 80]
  note e72 = encode_utf8_append_b [of 72]
  have same: "take 72 (replicate 72 97 @ [98 :: 8 word]) = take 72 (replicate 80 97)"
    by simp
  from verify_hash_password [OF a e80 e72] same
  have one: "\<exists>h. hash_password example_ext (replicate 80 97) = Inr h
          \<and> verify_password example_ext (replicate 80 97) h
          \<and> verify_password example_ext (replicate 72 97 @ [98]) h"
    by blast
  from a e80 e72 same one show ?thesis
    by (intro conjI)
qed

section \<open>Exceptions inside verify_password\<close>

text \<open>
  C9.  \<open>verify_password\<close> returns a boolean for every input: when the password or the
  stored hash cannot be encoded, or when the comparison of \<open>bcrypt\<close> raises, whatever the
  exception, the result is \<open>False\<close>; otherwise it is what the comparison returned.
\<close>

theorem verify_password_swallows_exceptions:
  "(\<forall>e. encode_utf8 p = Inl e \<longrightarrow> verify_password E p h = False)
   \<and> (\<forall>e. encode_utf8 h = Inl e \<longrightarrow> verify_password E p h = False)
   \<and> (\<forall>pb hb e. encode_utf8 p = Inr pb \<and> encode_utf8 h = Inr hb
          \<and> checkpw E (take 72 pb) hb = Inl e \<longrightarrow> verify_password E p h = False)
   \<and> (\<forall>pb hb ok. encode_utf8 p = Inr pb \<and> encode_utf8 h = Inr hb
          \<and> checkpw E (take 72 pb) hb = Inr ok \<longrightarrow> verify_password E p h = ok)
   \<and> (\<forall>e. verify_password_try E p h = Inl e \<longrightarrow> verify_password E p h = False)"
  by (auto simp: verify_password_def verify_password_try_eq split: sum.splits)

theorem verify_password_swallows_exceptions_witness:
  "encode_utf8 [0xDC00] = Inl UnicodeEncodeError
   \<and> verify_password example_ext [0xDC00] (ascii ''h1'') = False
   \<and> encode_utf8 (ascii ''secret1'') = Inr [0x73, 0x65, 0x63, 0x72, 0x65, 0x74, 0x31]
   \<and> encode_utf8 [] = Inr []
   \<and> checkpw example_ext (take 72 [0x73, 0x65, 0x63, 0x72, 0x65, 0x74, 0x31]) [] = Inl ValueError
   \<and> verify_password example_ext (ascii ''secret1'') [] = False"
proof -
  have e1: "encode_utf8 [0xDC00] = Inl UnicodeEncodeError"
    by (simp add: encode_char_def)
  have e2: "encode_utf8 (ascii ''secret1'') = Inr [0x73, 0x65, 0x63, 0x72, 0x65, 0x74, 0x31]"
    by (simp add: ascii_def encode_char_def)
  have e3: "encode_utf8 [] = Inr []"
    by simp
  have c: "checkpw example_ext (take 72 [0x73, 0x65, 0x63, 0x72, 0x65, 0x74, 0x31]) []
             = Inl ValueError"
    by (simp add: example_ext_def example_checkpw_def)
  note t1 = verify_password_swallows_exceptions [where p = "[0xDC00]" and E = example_ext
      and h = "ascii ''h1''",
      THEN conjunct1, THEN spec, THEN mp, OF e1]
  note t2 = verify_password_swallows_exceptions [where p = "ascii ''secret1''" and E = example_ext
      and h = "[]",
      THEN conjunct2, THEN conjunct2, THEN conjunct1, THEN spec, THEN spec, THEN spec, THEN mp,
      OF conjI [OF e2 conjI [OF e3 c]]]
  from e1 t1 e2 e3 c t2 show ?thesis
    by (intro conjI)
qed

section \<open>Issuing and verifying a token\<close>

lemma token_lifetime: "timedelta_minutes ACCESS_TOKEN_EXPIRE_MINUTES = 600"
  by (simp add: timedelta_minutes_def ACCESS_TOKEN_EXPIRE_MINUTES_def)

text \<open>
  C3.  \<open>create_access_token\<close> encodes the claim set with subject \<open>U\<close> and expiry
  \<open>utcnow + 600\<close> seconds under \<open>SECRET_KEY\<close> with HS256.  For the token it returns,
  \<open>verify_jwt_token\<close> run at a time not after the expiry returns that claim set, whose
  subject is \<open>U\<close>; run after the expiry it returns \<open>None\<close>; and for any token on which
  the decoder raises a \<open>JWTError\<close>, whatever its message, it returns the same \<open>None\<close>.
\<close>

theorem token_issue_verify:
  assumes "jose_contract E" and "create_access_token E U = Inr token"
  shows "create_access_token E U
           = jwt_encode E [(''sub'', ClaimStr U), (''exp'', ClaimTime (utcnow E + 600))]
               (SECRET_KEY E) ''HS256''
         \<and> (now \<le> utcnow E + 600 \<longrightarrow>
              verify_jwt_token (E\<lparr>utcnow := now\<rparr>) token
                = Inr (Some [(''sub'', ClaimStr U), (''exp'', ClaimTime (utcnow E + 600))])
              \<and> map_of [(''sub'', ClaimStr U), (''exp'', ClaimTime (utcnow E + 600))] ''sub''
                  = Some (ClaimStr U))
         \<and> (utcnow E + 600 < now \<longrightarrow> verify_jwt_token (E\<lparr>utcnow := now\<rparr>) token = Inr None)
         \<and> (\<forall>bad msg. jwt_decode E bad (SECRET_KEY E) [''HS256''] (utcnow E)
                          = Inl (JWTError msg)
                \<longrightarrow> verify_jwt_token E bad = Inr None)"
proof -
  let ?payload = "[(''sub'', ClaimStr U), (''exp'', ClaimTime (utcnow E + 600))]"
  have c: "create_access_token E U = jwt_encode E ?payload (SECRET_KEY E) ''HS256''"
    by (simp add: create_access_token_def token_lifetime ALGORITHM_def)
  with assms(2) have enc: "jwt_encode E ?payload (SECRET_KEY E) ''HS256'' = Inr token"
    by simp
  have ex: "map_of ?payload ''exp'' = Some (ClaimTime (utcnow E + 600))"
    by simp
  have dec: "if utcnow E + 600 < now
             then (\<exists>msg. jwt_decode E token (SECRET_KEY E) [''HS256''] now = Inl (JWTError msg))
             else jwt_decode E token (SECRET_KEY E) [''HS256''] now = Inr ?payload"
    using assms(1) enc ex unfolding jose_contract_def by blast
  have valid: "now \<le> utcnow E + 600 \<longrightarrow>
                 verify_jwt_token (E\<lparr>utcnow := now\<rparr>) token = Inr (Some ?payload)
                 \<and> map_of ?payload ''sub'' = Some (ClaimStr U)"
    using dec by (simp add: verify_jwt_token_def ALGORITHM_def)
  have expired: "utcnow E + 600 < now \<longrightarrow> verify_jwt_token (E\<lparr>utcnow := now\<rparr>) token = Inr None"
    using dec by (auto simp: verify_jwt_token_def ALGORITHM_def)
  have bad: "\<forall>bad msg. jwt_decode E bad (SECRET_KEY E) [''HS256''] (utcnow E)
                          = Inl (JWTError msg)
                \<longrightarrow> verify_jwt_token E bad = Inr None"
    by (simp add: verify_jwt_token_def ALGORITHM_def)
  from c valid expired bad show ?thesis by (intro conjI)
qed

subsection \<open>The small instance of the token library\<close>

lemma example_jwt_encode_Inr:
  assumes "example_jwt_encode payload key alg = Inr token"
  shows "\<exists>u t. payload = [(''sub'', ClaimStr u), (''exp'', ClaimTime t)] \<and> 0 \<le> t
           \<and> alg = ''HS256'' \<and> token = key_tag key # nat t # u"
  using assms
  by (auto simp: example_jwt_encode_def
      split: list.splits prod.splits claim_value.splits if_splits)

lemma example_jose_contract: "jose_contract example_ext"
  unfolding jose_contract_def
proof (intro allI impI, elim conjE)
  fix payload key alg token t now
  assume e: "jwt_encode example_ext payload key alg = Inr token"
    and x: "map_of payload ''exp'' = Some (ClaimTime t)"
  from e have "example_jwt_encode payload key alg = Inr token"
    by (simp add: example_ext_def)
  from example_jwt_encode_Inr [OF this] obtain u t' where
    p: "payload = [(''sub'', ClaimStr u), (''exp'', ClaimTime t')]" and t': "0 \<le> t'"
    and a: "alg = ''HS256''" and tok: "token = key_tag key # nat t' # u"
    by blast
  from x p have "t' = t" by simp
  with p t' a tok
  show "if t < now
        then \<exists>msg. jwt_decode example_ext token key [alg] now = Inl (JWTError msg)
        else jwt_decode example_ext token key [alg] now = Inr payload"
    by (simp add: example_ext_def example_jwt_decode_def)
qed

lemma example_token:
  "create_access_token example_ext (ascii ''alice'')
     = Inr (key_tag (Some (ascii ''key'')) # 1600 # ascii ''alice'')"
  by (simp add: create_access_token_def example_ext_def example_jwt_encode_def
      token_lifetime ALGORITHM_def)

lemma example_bad_token:
  "jwt_decode example_ext [0, 1600, 97] (SECRET_KEY example_ext) [''HS256''] (utcnow example_ext)
     = Inl (JWTError ''Signature verification failed.'')"
  by (simp add: example_ext_def example_jwt_decode_def key_tag_def)

theorem token_issue_verify_witness:
  "jose_contract example_ext
   \<and> create_access_token example_ext (ascii ''alice'')
       = Inr (key_tag (Some (ascii ''key'')) # 1600 # ascii ''alice'')
   \<and> verify_jwt_token (example_ext\<lparr>utcnow := 1600\<rparr>)
         (key_tag (Some (ascii ''key'')) # 1600 # ascii ''alice'')
       = Inr (Some [(''sub'', ClaimStr (ascii ''alice'')), (''exp'', ClaimTime 1600)])
   \<and> verify_jwt_token (example_ext\<lparr>utcnow := 1601\<rparr>)
         (key_tag (Some (ascii ''key'')) # 1600 # ascii ''alice'')
       = Inr None
   \<and> verify_jwt_token example_ext [0, 1600, 97] = Inr None"
proof -
  note t = token_issue_verify [OF example_jose_contract example_token]
  have u: "utcnow example_ext + 600 = 1600"
    by (simp add: example_ext_def)
  have "(1600 :: int) \<le> utcnow example_ext + 600" and "utcnow example_ext + 600 < (1601 :: int)"
    by (simp_all add: u)
  with t [of 1600] t [of 1601]
  have v: "verify_jwt_token (example_ext\<lparr>utcnow := 1600\<rparr>)
             (key_tag (Some (ascii ''key'')) # 1600 # ascii ''alice'')
           = Inr (Some [(''sub'', ClaimStr (ascii ''alice'')), (''exp'', ClaimTime 1600)])"
    and x: "verify_jwt_token (example_ext\<lparr>utcnow := 1601\<rparr>)
             (key_tag (Some (ascii ''key'')) # 1600 # ascii ''alice'') = Inr None"
    by (simp_all add: u)
  from t [of 0] example_bad_token
  have b: "verify_jwt_token example_ext [0, 1600, 97] = Inr None"
    by blast
  from example_jose_contract example_token v x b show ?thesis
    by (intro conjI)
qed

section \<open>Password length at registration and at profile update\<close>

lemma get_current_user_member:
  assumes "get_current_user E token db = Inr u"
  shows "u \<in> set (users db)"
proof -
  from assms obtain sub where
    "scalar_one_or_none (filter (\<lambda>u. ClaimStr (username u) = sub) (users db)) = Inr (Some u)"
    by (auto simp: get_current_user_def split: sum.splits option.splits if_splits)
  then have "filter (\<lambda>u. ClaimStr (username u) = sub) (users db) = [u]"
    by (simp add: scalar_one_or_none_Some)
  then have "u \<in> set (filter (\<lambda>u. ClaimStr (username u) = sub) (users db))"
    by simp
  then show ?thesis by simp
qed

lemma emails_member:
  assumes "e \<in> set (emails us)"
  shows "\<exists>u\<in>set us. email u = Some e"
  using assms by (auto simp: emails_def split: option.splits)

lemma update_user_row_same_email:
  assumes c: "db_constraints db" and m: "cu \<in> set (users db)"
  shows "update_user_row (cu\<lparr>hashed_password := hashed\<rparr>) db
           = Inr (db\<lparr>users := map (\<lambda>u. if u = cu then cu\<lparr>hashed_password := hashed\<rparr> else u)
                                (users db)\<rparr>)"
proof -
  from c have de: "distinct (emails (users db))" and di: "distinct (map user_id (users db))"
    by (simp_all add: db_constraints_def)
  have free: "\<And>e. email cu = Some e \<Longrightarrow>
                e \<notin> set (emails (filter (\<lambda>u. user_id u \<noteq> user_id cu) (users db)))"
  proof
    fix e assume e: "email cu = Some e"
      and "e \<in> set (emails (filter (\<lambda>u. user_id u \<noteq> user_id cu) (users db)))"
    from emails_member [OF this(2)] obtain u where
      u: "u \<in> set (users db)" "user_id u \<noteq> user_id cu" "email u = Some e"
      by auto
    have "filter (\<lambda>x. email x = Some e) (users db) = [u]"
      using de u(1,3) by (rule select_by_email_unique)
    moreover have "filter (\<lambda>x. email x = Some e) (users db) = [cu]"
      using de m e by (rule select_by_email_unique)
    ultimately show False using u(2) by simp
  qed
  have same: "\<And>u. u \<in> set (users db) \<Longrightarrow> (user_id u = user_id cu) = (u = cu)"
    using distinct_key_neq [OF di] m by blast
  have rows: "map (\<lambda>u. if user_id u = user_id cu
                  then u\<lparr>email := email cu, full_name := full_name cu,
                         hashed_password := hashed\<rparr>
                  else u) (users db)
          = map (\<lambda>u. if u = cu then cu\<lparr>hashed_password := hashed\<rparr> else u) (users db)"
    by (rule map_cong) (simp_all add: same)
  have cond: "\<not> (case email cu of None \<Rightarrow> False
                 | Some e \<Rightarrow> e \<in> set (emails (filter (\<lambda>u. user_id u \<noteq> user_id cu) (users db))))"
    using free by (simp split: option.splits)
  have "update_user_row (cu\<lparr>hashed_password := hashed\<rparr>) db
          = Inr (db\<lparr>users := map (\<lambda>u. if user_id u = user_id cu
                  then u\<lparr>email := email cu, full_name := full_name cu,
                         hashed_password := hashed\<rparr>
                  else u) (users db)\<rparr>)"
    using cond by (simp add: update_user_row_def cong: option.case_cong)
  then show ?thesis by (simp only: rows)
qed

text \<open>
  C10.  The route of \<open>register\<close> answers 422, with the database as it was, for a password
  of fewer than 6 or more than 50 characters, so a registration that succeeds had a
  password of 6 to 50 characters.  The schema of the profile update asks of a password
  only that it has at least 6 characters; a password of any such length that can be
  hashed is then stored, hashed, in the caller's row by \<open>PUT /me\<close>.
\<close>

theorem password_length_bounds:
  "(length (reg_password body) < 6 \<or> 50 < length (reg_password body) \<longrightarrow>
      post_register E body db = (Inl RequestValidationError, db))
   \<and> (\<forall>t db'. post_register E body db = (Inr t, db') \<longrightarrow>
         6 \<le> length (reg_password body) \<and> length (reg_password body) \<le> 50)
   \<and> (upd_password upd = Some p \<longrightarrow>
         valid_UserUpdate E upd
           = (6 \<le> length p \<and> (case upd_email upd of None \<Rightarrow> True | Some e \<Rightarrow> email_str E e)))
   \<and> (db_constraints db \<and> get_current_user E token db = Inr cu \<and> 6 \<le> length p
         \<and> hash_password E p = Inr hashed \<longrightarrow>
       put_me E token \<lparr>upd_email = None, upd_full_name = None, upd_password = Some p\<rparr> db
         = (Inr (cu\<lparr>hashed_password := hashed\<rparr>),
            db\<lparr>users := map (\<lambda>u. if u = cu then cu\<lparr>hashed_password := hashed\<rparr> else u)
                           (users db)\<rparr>))"
proof (intro conjI allI impI)
  assume "length (reg_password body) < 6 \<or> 50 < length (reg_password body)"
  then have "\<not> valid_UserRegister E body"
    by (auto simp: valid_UserRegister_def)
  then show "post_register E body db = (Inl RequestValidationError, db)"
    by (simp add: post_register_def)
next
  fix t db' assume ok: "post_register E body db = (Inr t, db')"
  then have v: "valid_UserRegister E body"
    by (auto simp: post_register_def split: if_splits)
  from v show "6 \<le> length (reg_password body)"
    by (simp add: valid_UserRegister_def)
  from v show "length (reg_password body) \<le> 50"
    by (simp add: valid_UserRegister_def)
next
  assume "upd_password upd = Some p"
  then show "valid_UserUpdate E upd
           = (6 \<le> length p \<and> (case upd_email upd of None \<Rightarrow> True | Some e \<Rightarrow> email_str E e))"
    by (auto simp: valid_UserUpdate_def)
next
  assume a: "db_constraints db \<and> get_current_user E token db = Inr cu \<and> 6 \<le> length p
         \<and> hash_password E p = Inr hashed"
  then have m: "cu \<in> set (users db)"
    using get_current_user_member by blast
  from a have p: "p \<noteq> []" by auto
  have v: "valid_UserUpdate E \<lparr>upd_email = None, upd_full_name = None, upd_password = Some p\<rparr>"
    using a by (simp add: valid_UserUpdate_def)
  have row: "update_user_row (cu\<lparr>hashed_password := hashed\<rparr>) db
           = Inr (db\<lparr>users := map (\<lambda>u. if u = cu then cu\<lparr>hashed_password := hashed\<rparr> else u)
                                (users db)\<rparr>)"
    using a m by (simp add: update_user_row_same_email)
  have "update_my_profile E \<lparr>upd_email = None, upd_full_name = None, upd_password = Some p\<rparr>
          cu db
        = (Inr (cu\<lparr>hashed_password := hashed\<rparr>),
            db\<lparr>users := map (\<lambda>u. if u = cu then cu\<lparr>hashed_password := hashed\<rparr> else u)
                           (users db)\<rparr>)"
    using a p by (simp add: update_my_profile_def truthy_str_def row)
  with a v show "put_me E token \<lparr>upd_email = None, upd_full_name = None, upd_password = Some p\<rparr> db
         = (Inr (cu\<lparr>hashed_password := hashed\<rparr>),
            db\<lparr>users := map (\<lambda>u. if u = cu then cu\<lparr>hashed_password := hashed\<rparr> else u)
                           (users db)\<rparr>)"
    by (simp add: put_me_def)
qed

lemma example_db_constraints: "db_constraints example_db"
  by (simp add: db_constraints_def example_db_users example_db_books example_ids
      example_usernames ascii_alice_bob emails_def example_emails ascii_emails_differ)

lemma example_current_user:
  "get_current_user example_ext (key_tag (Some (ascii ''key'')) # 1600 # ascii ''alice'')
     example_db = Inr alice"
proof -
  have "verify_jwt_token example_ext (key_tag (Some (ascii ''key'')) # 1600 # ascii ''alice'')
          = Inr (Some [(''sub'', ClaimStr (ascii ''alice'')), (''exp'', ClaimTime 1600)])"
    by (simp add: verify_jwt_token_def example_ext_def example_jwt_decode_def ALGORITHM_def)
  moreover have "filter (\<lambda>u. ClaimStr (username u) = ClaimStr (ascii ''alice''))
                   (users example_db) = [alice]"
    using ascii_alice_bob by (simp add: example_db_users example_usernames)
  moreover have "truthy_claim (ClaimStr (ascii ''alice''))"
    by (simp add: truthy_claim_def ascii_def)
  ultimately show ?thesis
    by (simp add: get_current_user_def)
qed

theorem password_length_bounds_witness:
  "post_register example_ext
      \<lparr>reg_username = ascii ''carol'', reg_password = replicate 51 97, reg_email = None,
       reg_full_name = None\<rparr> example_db
     = (Inl RequestValidationError, example_db)
   \<and> valid_UserUpdate example_ext
        \<lparr>upd_email = None, upd_full_name = None, upd_password = Some (replicate 51 97)\<rparr>
   \<and> db_constraints example_db
   \<and> get_current_user example_ext (key_tag (Some (ascii ''key'')) # 1600 # ascii ''alice'')
        example_db = Inr alice
   \<and> (\<exists>h. hash_password example_ext (replicate 51 97) = Inr h
          \<and> put_me example_ext (key_tag (Some (ascii ''key'')) # 1600 # ascii ''alice'')
               \<lparr>upd_email = None, upd_full_name = None, upd_password = Some (replicate 51 97)\<rparr>
               example_db
             = (Inr (alice\<lparr>hashed_password := h\<rparr>),
                example_db\<lparr>users := map (\<lambda>u. if u = alice then alice\<lparr>hashed_password := h\<rparr>
                                               else u) (users example_db)\<rparr>))"
proof -
  let ?body = "\<lparr>reg_username = ascii ''carol'', reg_password = replicate 51 97,
                 reg_email = None, reg_full_name = None\<rparr>"
  let ?upd = "\<lparr>upd_email = None, upd_full_name = None,
                upd_password = Some (replicate 51 (97 :: nat))\<rparr>"
  let ?token = "key_tag (Some (ascii ''key'')) # 1600 # ascii ''alice''"
  have long: "length (reg_password ?body) < 6 \<or> 50 < length (reg_password ?body)"
    by simp
  have r: "post_register example_ext ?body example_db = (Inl RequestValidationError, example_db)"
    using password_length_bounds [where body = ?body and E = example_ext and db = example_db,
        THEN conjunct1, THEN mp, OF long] .
  have "upd_password ?upd = Some (replicate 51 97)"
    by simp
  from password_length_bounds [where upd = ?upd and p = "replicate 51 97" and E = example_ext,
        THEN conjunct2, THEN conjunct2, THEN conjunct1, THEN mp, OF this]
  have v: "valid_UserUpdate example_ext ?upd"
    by simp
  from hash_password_under_contract [OF example_bcrypt_accepts encode_utf8_replicate_a [of 51]]
  obtain h where h: "hash_password example_ext (replicate 51 97) = Inr h"
    by blast
  have six: "6 \<le> length (replicate 51 (97 :: nat))"
    by simp
  note password_length_bounds [where db = example_db and E = example_ext and token = ?token
      and cu = alice and p = "replicate 51 97" and hashed = h,
      THEN conjunct2, THEN conjunct2, THEN conjunct2, THEN mp,
      OF conjI [OF example_db_constraints conjI [OF example_current_user conjI [OF six h]]]]
  with h have "\<exists>h. hash_password example_ext (replicate 51 97) = Inr h
          \<and> put_me example_ext ?token ?upd example_db
             = (Inr (alice\<lparr>hashed_password := h\<rparr>),
                example_db\<lparr>users := map (\<lambda>u. if u = alice then alice\<lparr>hashed_password := h\<rparr>
                                               else u) (users example_db)\<rparr>)"
    by blast
  with r v example_db_constraints example_current_user show ?thesis
    by (intro conjI)
qed

section \<open>Listing the caller's books\<close>
















end
